theory Spec2Isabelle
  imports Main "HOL-Library.Word" "HOL-Library.Sublist"
begin

section \<open>The SOCKS5 proxy of the edge agent (agent/pkg/proxy/socks5\_proxy.go)\<close>

text \<open>
  A shallow embedding of \<^verbatim>\<open>socks5_proxy.go\<close>. Bytes are 8-bit words, Go strings are
  byte strings (\<open>string\<close>), \<open>int32\<close> is a 32-bit word read with \<open>sint\<close>. Every call
  that leaves the function (a write on the connection, the pod listing of the cluster
  client, the stream request to the tunnel, the start of the relay goroutine, the close of
  the connection) is appended to the trace of the connection being handled. The
  \<^verbatim>\<open>klog\<close> calls are left out: they only print.
\<close>

subsection \<open>Constants\<close>

type_synonym byte = "8 word"

definition LabelKubeedge :: string where
  "LabelKubeedge = ''kubeedge=edgemesh-agent''"

definition AgentPodName :: string where
  "AgentPodName = ''edgemesh-agent''"

definition Version :: byte where
  "Version = 0x05"

definition DefaultMethod :: byte where
  "DefaultMethod = 0x00"

definition Success :: byte where
  "Success = 0x00"

definition ATYPIPv4 :: byte where
  "ATYPIPv4 = 0x01"

definition ATYPDomain :: byte where
  "ATYPDomain = 0x03"

definition ATYPIPv6 :: byte where
  "ATYPIPv6 = 0x04"

definition CmdConnect :: byte where
  "CmdConnect = 0x01"

definition DefaultResponse :: "byte list" where
  "DefaultResponse = [Version, Success, 0x00, 0x01, 0x00, 0x00, 0x00, 0x00, 0x00, 0x00]"

lemmas socks_consts =
  LabelKubeedge_def AgentPodName_def Version_def DefaultMethod_def Success_def
  ATYPIPv4_def ATYPDomain_def ATYPIPv6_def CmdConnect_def DefaultResponse_def

subsection \<open>Data\<close>

text \<open>
  Go errors. \<open>Errorf\<close> is \<^verbatim>\<open>fmt.Errorf\<close> with its formatted message, \<open>EOF\<close> the end
  of the inbound stream, \<open>WriteError\<close> a failed write, \<open>External\<close> an error handed back
  by the cluster client or by the tunnel.
\<close>

datatype error = Errorf string | EOF | WriteError | External string

text \<open>The struct \<^verbatim>\<open>Request\<close>; the field \<^verbatim>\<open>Version\<close> is \<open>ReqVersion\<close> here,
  since \<open>Version\<close> is the constant.\<close>

record Request =
  ReqVersion :: byte
  Command :: byte
  Rsv :: byte
  AddressType :: byte
  DstAddr :: string
  DstPort :: "32 word"

record SocksHandle =
  Request :: Request

text \<open>\<^verbatim>\<open>proxy.ProxyOptions\<close> of the tunnel package, with the four fields the proxy sets.\<close>

record ProxyOptions =
  Protocol :: string
  NodeName :: string
  IP :: string
  Port :: "32 word"

text \<open>\<^verbatim>\<open>metav1.ListOptions\<close> with the two selectors the proxy sets, and the two fields of
  a pod the proxy reads (\<^verbatim>\<open>pod.Name\<close>, \<^verbatim>\<open>pod.Status.PodIP\<close>).\<close>

record ListOptions =
  FieldSelector :: string
  LabelSelector :: string

record Pod =
  Name :: string
  PodIP :: string

type_synonym stream = nat

text \<open>What a connection handler does to the outside: \<open>EvWrite bs ok\<close> is a call
  \<^verbatim>\<open>conn.Write(bs)\<close> and whether it succeeded, \<open>EvList ns opts\<close> the pod listing in
  namespace \<open>ns\<close>, \<open>EvGetProxyStream\<close> the stream request to the tunnel, \<open>EvGoProxyConn\<close>
  the start of the relay goroutine \<^verbatim>\<open>go util.ProxyConn(stream, conn)\<close>, \<open>EvClose\<close> the
  deferred \<^verbatim>\<open>conn.Close()\<close>.\<close>

datatype event =
    EvWrite "byte list" bool
  | EvList string ListOptions
  | EvGetProxyStream ProxyOptions
  | EvGoProxyConn stream
  | EvClose

text \<open>
  A \<^verbatim>\<open>net.Conn\<close> as the handler sees it: \<open>inbound\<close> are the segments still to be
  read, in arrival order (one \<^verbatim>\<open>Read\<close> never returns bytes of two segments, and the end
  of the list is the end of the stream); \<open>wfails\<close> says for each coming \<^verbatim>\<open>Write\<close>
  whether it fails (none left: it succeeds); \<open>trace\<close> is the log of events.
\<close>

record Conn =
  inbound :: "byte list list"
  wfails :: "bool list"
  trace :: "event list"

text \<open>The struct \<^verbatim>\<open>Socks5Proxy\<close>. The cluster client is its pod listing: namespace and
  list options to the items or an error. The listener of \<^verbatim>\<open>TCPProxy\<close> plays no part
  in handling a connection.\<close>

record Socks5Proxy =
  kubeClient :: "string \<Rightarrow> ListOptions \<Rightarrow> error + Pod list"
  NodeName :: string
  SocksHandle :: SocksHandle

subsection \<open>The connection\<close>

definition emit :: "event \<Rightarrow> Conn \<Rightarrow> Conn" where
  "emit e c = c\<lparr>trace := trace c @ [e]\<rparr>"

text \<open>
  \<^verbatim>\<open>conn.Read(buf)\<close> with \<open>n = len(buf)\<close>, the buffer fresh from \<^verbatim>\<open>make\<close> (all
  zero). The result is the buffer after the call: the bytes one read delivers (at most
  \<open>n\<close>, from the first segment only), then the zeros that were there. The count Go
  returns is dropped by every caller, so it is not part of the result. A read into an
  empty buffer returns at once with no error.
\<close>

definition conn_Read :: "nat \<Rightarrow> Conn \<Rightarrow> (error + byte list) \<times> Conn" where
  "conn_Read n c =
     (if n = 0 then (Inr [], c)
      else case inbound c of
          [] \<Rightarrow> (Inl EOF, c)
        | seg # rest \<Rightarrow>
            (Inr (take n seg @ replicate (n - length seg) 0),
             c\<lparr>inbound := (if length seg \<le> n then rest else drop n seg # rest)\<rparr>))"

definition conn_Write :: "byte list \<Rightarrow> Conn \<Rightarrow> error option \<times> Conn" where
  "conn_Write bs c =
     (case wfails c of
        [] \<Rightarrow> (None, emit (EvWrite bs True) c)
      | f # fs \<Rightarrow>
          (if f then (Some WriteError, emit (EvWrite bs False) (c\<lparr>wfails := fs\<rparr>))
           else (None, emit (EvWrite bs True) (c\<lparr>wfails := fs\<rparr>))))"

definition conn_Close :: "Conn \<Rightarrow> Conn" where
  "conn_Close c = emit EvClose c"

subsection \<open>Library functions the proxy calls\<close>

text \<open>\<^verbatim>\<open>string(addr)\<close>: the bytes as they are.\<close>

definition string_of_bytes :: "byte list \<Rightarrow> string" where
  "string_of_bytes bs = map (\<lambda>b. char_of (unat b)) bs"

definition bytes_of_string :: "string \<Rightarrow> byte list" where
  "bytes_of_string s = map (\<lambda>ch. word_of_nat (of_char ch)) s"

text \<open>\<^verbatim>\<open>ubtoa\<close> of Go's package net: a byte in decimal, without leading zeros. A
  digit is looked up in the table of digits.\<close>

definition digit :: "nat \<Rightarrow> char" where
  "digit d = ''0123456789'' ! d"

definition ubtoa :: "byte \<Rightarrow> string" where
  "ubtoa v =
     (let x = unat v in
      if x < 10 then [digit x]
      else if x < 100 then [digit (x div 10), digit (x mod 10)]
      else [digit (x div 100), digit ((x div 10) mod 10), digit (x mod 10)])"

text \<open>A natural number as a decimal numeral, and the verb \<^verbatim>\<open>%d\<close> of \<^verbatim>\<open>fmt\<close> on an
  \<^verbatim>\<open>int\<close>.\<close>

fun decimal :: "nat \<Rightarrow> string" where
  "decimal n = (if n < 10 then [digit n] else decimal (n div 10) @ [digit (n mod 10)])"

declare decimal.simps [simp del]

definition fmt_d :: "int \<Rightarrow> string" where
  "fmt_d i = (if i < 0 then ''-'' @ decimal (nat (- i)) else decimal (nat i))"

text \<open>
  \<^verbatim>\<open>net.IP(addr).String()\<close>: four bytes are printed in dotted notation. The printing of
  a 16-byte address (colon-hex, or dotted when it maps an IPv4 address) is the
  parameter \<open>ip16\<close>; the request reader calls it with four or sixteen bytes only.
\<close>

definition net_IP_String :: "(byte list \<Rightarrow> string) \<Rightarrow> byte list \<Rightarrow> string" where
  "net_IP_String ip16 ip =
     (if length ip = 4
      then ubtoa (ip ! 0) @ ''.'' @ ubtoa (ip ! 1) @ ''.'' @ ubtoa (ip ! 2) @ ''.'' @ ubtoa (ip ! 3)
      else ip16 ip)"

text \<open>\<^verbatim>\<open>binary.BigEndian.Uint16(b)\<close> is \<^verbatim>\<open>uint16(b[1]) | uint16(b[0])<<8\<close>.\<close>

unbundle bit_operations_syntax

definition BigEndian_Uint16 :: "byte list \<Rightarrow> 16 word" where
  "BigEndian_Uint16 b = (ucast (b ! 1) :: 16 word) OR push_bit 8 (ucast (b ! 0) :: 16 word)"

text \<open>\<^verbatim>\<open>strings.Contains(s, substr)\<close>: \<open>substr\<close> occurs in \<open>s\<close> as a contiguous run.\<close>

fun strings_Contains :: "string \<Rightarrow> string \<Rightarrow> bool" where
  "strings_Contains [] substr = (substr = [])"
| "strings_Contains (ch # s) substr = (prefix substr (ch # s) \<or> strings_Contains s substr)"

subsection \<open>The wire codec: handShake, NewRequest, ParsingConnect\<close>

text \<open>The loop of \<^verbatim>\<open>handShake\<close> over the method bytes, from \<open>flag := false\<close>.\<close>

definition method_flag :: "byte list \<Rightarrow> bool" where
  "method_flag ms = foldl (\<lambda>flag m. if m = DefaultMethod then True else flag) False ms"

definition handShake :: "Conn \<Rightarrow> error option \<times> Conn" where
  "handShake c =
     (case conn_Read 2 c of
        (Inl err, c1) \<Rightarrow> (Some err, c1)
      | (Inr data, c1) \<Rightarrow>
          if data ! 0 \<noteq> Version then (Some (Errorf ''invalid version''), c1)
          else if data ! 1 = 0 then (Some (Errorf ''method length error''), c1)
          else (case conn_Read (unat (data ! 1)) c1 of
              (Inl err, c2) \<Rightarrow> (Some err, c2)
            | (Inr ms, c2) \<Rightarrow>
                if \<not> method_flag ms
                then (Some (Errorf ''this method is not yet supported''), c2)
                else conn_Write [Version, Success] c2))"

text \<open>The tail of \<^verbatim>\<open>NewRequest\<close> once the host is known: the port, then the store of
  the new \<^verbatim>\<open>Request\<close> in the handle.\<close>

definition NewRequest_port ::
  "SocksHandle \<Rightarrow> byte list \<Rightarrow> string \<Rightarrow> Conn \<Rightarrow> error option \<times> SocksHandle \<times> Conn" where
  "NewRequest_port s data host c =
     (case conn_Read 2 c of
        (Inl err, c1) \<Rightarrow> (Some err, s, c1)
      | (Inr port, c1) \<Rightarrow>
          (None,
           s\<lparr>Request := \<lparr>ReqVersion = data ! 0, Command = data ! 1, Rsv = data ! 2,
                          AddressType = data ! 3, DstAddr = host,
                          DstPort = ucast (BigEndian_Uint16 port)\<rparr>\<rparr>,
           c1))"

definition NewRequest ::
  "(byte list \<Rightarrow> string) \<Rightarrow> SocksHandle \<Rightarrow> Conn \<Rightarrow> error option \<times> SocksHandle \<times> Conn" where
  "NewRequest ip16 s c =
     (case conn_Read 4 c of
        (Inl err, c1) \<Rightarrow> (Some err, s, c1)
      | (Inr data, c1) \<Rightarrow>
          if data ! 0 \<noteq> Version then (Some (Errorf ''invalid version''), s, c1)
          else if data ! 3 = ATYPIPv4 then
            (case conn_Read 4 c1 of
               (Inl err, c2) \<Rightarrow> (Some err, s, c2)
             | (Inr addr, c2) \<Rightarrow> NewRequest_port s data (net_IP_String ip16 addr) c2)
          else if data ! 3 = ATYPIPv6 then
            (case conn_Read 16 c1 of
               (Inl err, c2) \<Rightarrow> (Some err, s, c2)
             | (Inr addr, c2) \<Rightarrow> NewRequest_port s data (net_IP_String ip16 addr) c2)
          else if data ! 3 = ATYPDomain then
            (case conn_Read 1 c1 of
               (Inl err, c2) \<Rightarrow> (Some err, s, c2)
             | (Inr dal, c2) \<Rightarrow>
                 (case conn_Read (unat (dal ! 0)) c2 of
                    (Inl err, c3) \<Rightarrow> (Some err, s, c3)
                  | (Inr addr, c3) \<Rightarrow> NewRequest_port s data (string_of_bytes addr) c3))
          else (Some (Errorf ''destination address is incorrect''), s, c1))"

definition ParsingConnect ::
  "(byte list \<Rightarrow> string) \<Rightarrow> SocksHandle \<Rightarrow> Conn \<Rightarrow> error option \<times> SocksHandle \<times> Conn" where
  "ParsingConnect ip16 s c =
     (case handShake c of
        (Some err, c1) \<Rightarrow> (Some err, s, c1)
      | (None, c1) \<Rightarrow> NewRequest ip16 s c1)"

subsection \<open>The destination resolver: getTargetIpByNodeName\<close>

text \<open>
  The namespace \<^verbatim>\<open>constants.EdgeMeshNamespace\<close> is declared outside this file and is
  the parameter \<open>ns\<close>. The result is the Go pair \<open>(targetIP, err)\<close>. The loop keeps
  \<open>(ip, err)\<close> and overwrites both at every pod whose name contains \<open>AgentPodName\<close>.
\<close>

definition pod_step :: "string \<times> error option \<Rightarrow> Pod \<Rightarrow> string \<times> error option" where
  "pod_step acc pod = (if strings_Contains (Name pod) AgentPodName then (PodIP pod, None) else acc)"

definition getTargetIpByNodeName ::
  "string \<Rightarrow> Socks5Proxy \<Rightarrow> string \<Rightarrow> Conn \<Rightarrow> (string \<times> error option) \<times> Conn" where
  "getTargetIpByNodeName ns s nodeName c =
     (let opts = \<lparr>FieldSelector = ''spec.nodeName='' @ nodeName, LabelSelector = LabelKubeedge\<rparr>;
          c1 = emit (EvList ns opts) c
      in case kubeClient s ns opts of
           Inl err \<Rightarrow> (([], Some err), c1)
         | Inr items \<Rightarrow>
             (foldl pod_step
                ([], Some (Errorf (''edgemesh agent not found on node ['' @ nodeName @ '']'')))
                items,
              c1))"

subsection \<open>The dispatcher: proxyConnectToRemote\<close>

text \<open>\<^verbatim>\<open>tunnel.Agent.ProxySvc.GetProxyStream\<close> is a global of the tunnel package: the
  parameter \<open>tunnel\<close>. The error of the write is logged and nothing else.\<close>

definition proxyConnectToRemote ::
  "(ProxyOptions \<Rightarrow> error + stream) \<Rightarrow> string \<Rightarrow> string \<Rightarrow> 32 word \<Rightarrow> Conn \<Rightarrow> Conn" where
  "proxyConnectToRemote tunnel host targetIP port c =
     (let proxyOpts = \<lparr>Protocol = ''tcp'', NodeName = host, IP = targetIP, Port = port\<rparr>;
          c1 = emit (EvGetProxyStream proxyOpts) c
      in case tunnel proxyOpts of
           Inl err \<Rightarrow> c1
         | Inr stream \<Rightarrow>
             (case conn_Write DefaultResponse c1 of
                (werr, c2) \<Rightarrow> emit (EvGoProxyConn stream) c2))"

subsection \<open>The connection handler: NewSocks5Proxy, HandleSocksProxy\<close>

text \<open>
  \<^verbatim>\<open>NewSocks5Proxy(ip, port, NodeName, kubeClient)\<close>. One handle with one zero
  \<^verbatim>\<open>Request\<close> is made here, for the proxy. \<^verbatim>\<open>TCPProxy.SetListener\<close> is declared outside
  this file: \<open>listen\<close> is the message of the error it returns (\<open>None\<close>: no error).
  The proxy is returned in both cases, and the listener's error wrapped by
  \<^verbatim>\<open>fmt.Errorf("set socks5 proxy err: %v, host: %s, port: %d", err, ip, port)\<close>.
\<close>

definition NewSocks5Proxy ::
  "(byte list \<Rightarrow> string) \<Rightarrow> string option \<Rightarrow> byte list \<Rightarrow> int \<Rightarrow> string \<Rightarrow>
   (string \<Rightarrow> ListOptions \<Rightarrow> error + Pod list) \<Rightarrow> Socks5Proxy \<times> error option" where
  "NewSocks5Proxy ip16 listen ip port nodeName kube =
     (\<lparr>kubeClient = kube, NodeName = nodeName,
       SocksHandle = \<lparr>Request = \<lparr>ReqVersion = 0, Command = 0, Rsv = 0, AddressType = 0,
                                  DstAddr = [], DstPort = 0\<rparr>\<rparr>\<rparr>,
      case listen of
        None \<Rightarrow> None
      | Some msg \<Rightarrow>
          Some (Errorf (''set socks5 proxy err: '' @ msg @ '', host: '' @ net_IP_String ip16 ip @
                        '', port: '' @ fmt_d port)))"

text \<open>
  \<^verbatim>\<open>HandleSocksProxy\<close> in its two parts. The first is the call
  \<^verbatim>\<open>s.SocksHandle.ParsingConnect(conn)\<close>: the handle is the proxy's, so the request it
  stores is stored in the proxy. The second is everything after the error check: each
  \<^verbatim>\<open>s.SocksHandle.Request\<close> there is read from the proxy.
\<close>

definition HandleSocksProxy_parse ::
  "(byte list \<Rightarrow> string) \<Rightarrow> Socks5Proxy \<Rightarrow> Conn \<Rightarrow> error option \<times> Socks5Proxy \<times> Conn" where
  "HandleSocksProxy_parse ip16 s c =
     (case ParsingConnect ip16 (SocksHandle s) c of
        (err, h, c1) \<Rightarrow> (err, s\<lparr>SocksHandle := h\<rparr>, c1))"

definition HandleSocksProxy_dispatch ::
  "(ProxyOptions \<Rightarrow> error + stream) \<Rightarrow> string \<Rightarrow> Socks5Proxy \<Rightarrow> Conn \<Rightarrow> Conn" where
  "HandleSocksProxy_dispatch tunnel ns s c =
     (let r = Request (SocksHandle s) in
      if AddressType r \<noteq> ATYPDomain \<or> DstAddr r = Socks5Proxy.NodeName s then c
      else case getTargetIpByNodeName ns s (DstAddr r) c of
          ((targetIP, Some err), c1) \<Rightarrow> c1
        | ((targetIP, None), c1) \<Rightarrow>
            if Command r = CmdConnect
            then proxyConnectToRemote tunnel (DstAddr r) targetIP (DstPort r) c1
            else c1)"

text \<open>The whole handler: \<open>None\<close> is the nil connection; \<^verbatim>\<open>defer conn.Close()\<close> runs on
  every return after the nil check.\<close>

definition HandleSocksProxy ::
  "(byte list \<Rightarrow> string) \<Rightarrow> (ProxyOptions \<Rightarrow> error + stream) \<Rightarrow> string \<Rightarrow>
   Socks5Proxy \<Rightarrow> Conn option \<Rightarrow> Socks5Proxy \<times> Conn option" where
  "HandleSocksProxy ip16 tunnel ns s conn =
     (case conn of
        None \<Rightarrow> (s, None)
      | Some c \<Rightarrow>
          (case HandleSocksProxy_parse ip16 s c of
             (Some err, s1, c1) \<Rightarrow> (s1, Some (conn_Close c1))
           | (None, s1, c1) \<Rightarrow>
               (s1, Some (conn_Close (HandleSocksProxy_dispatch tunnel ns s1 c1)))))"

section \<open>Notions of the specification\<close>

text \<open>The dotted-decimal rendering of address bytes: the decimal numerals of the bytes,
  joined by dots.\<close>

fun join_dots :: "string list \<Rightarrow> string" where
  "join_dots [] = []"
| "join_dots [x] = x"
| "join_dots (x # y # ys) = x @ ''.'' @ join_dots (y # ys)"

definition dotted_decimal :: "byte list \<Rightarrow> string" where
  "dotted_decimal bs = join_dots (map (\<lambda>b. decimal (unat b)) bs)"

text \<open>A pod of the listing matches when its name contains the agent's name.\<close>

definition is_agent_pod :: "Pod \<Rightarrow> bool" where
  "is_agent_pod pod = sublist AgentPodName (Name pod)"

text \<open>The query of the resolver for a node: the pods on that node that carry the agent's
  label.\<close>

definition pod_query :: "string \<Rightarrow> ListOptions" where
  "pod_query nodeName =
     \<lparr>FieldSelector = ''spec.nodeName='' @ nodeName, LabelSelector = LabelKubeedge\<rparr>"

definition not_found :: "string \<Rightarrow> error" where
  "not_found nodeName = Errorf (''edgemesh agent not found on node ['' @ nodeName @ '']'')"

text \<open>The next write on the connection fails.\<close>

definition write_fails :: "Conn \<Rightarrow> bool" where
  "write_fails c = (case wfails c of [] \<Rightarrow> False | f # fs \<Rightarrow> f)"

text \<open>The stream requests made to the tunnel, in the order of the trace.\<close>

fun stream_requests :: "event list \<Rightarrow> ProxyOptions list" where
  "stream_requests [] = []"
| "stream_requests (EvGetProxyStream opts # es) = opts # stream_requests es"
| "stream_requests (e # es) = stream_requests es"

section \<open>Example inputs\<close>

text \<open>A cluster with agents on four nodes (two of them on \<open>my-node1\<close>; one without a
  pod IP on \<open>no-ip\<close>; on \<open>mixed\<close> one without a pod IP listed before one with a pod
  IP), a node whose listing fails and no pods anywhere else; a tunnel that has no route to
  the node \<open>far\<close>; the proxy of the node \<open>edge-1\<close>, listening on \<open>127.0.0.1:1080\<close>.\<close>

definition ex_kube :: "string \<Rightarrow> ListOptions \<Rightarrow> error + Pod list" where
  "ex_kube ns opts =
     (if FieldSelector opts = ''spec.nodeName=my-node1'' then
        Inr [\<lparr>Name = ''edgemesh-agent-abc'', PodIP = ''10.0.0.9''\<rparr>,
             \<lparr>Name = ''edgemesh-agent-xyz'', PodIP = ''10.0.0.5''\<rparr>,
             \<lparr>Name = ''nginx'', PodIP = ''10.0.0.7''\<rparr>]
      else if FieldSelector opts = ''spec.nodeName=far'' then
        Inr [\<lparr>Name = ''edgemesh-agent-far'', PodIP = ''10.0.0.6''\<rparr>]
      else if FieldSelector opts = ''spec.nodeName=no-ip'' then
        Inr [\<lparr>Name = ''edgemesh-agent-new'', PodIP = []\<rparr>]
      else if FieldSelector opts = ''spec.nodeName=mixed'' then
        Inr [\<lparr>Name = ''edgemesh-agent-a'', PodIP = []\<rparr>,
             \<lparr>Name = ''edgemesh-agent-b'', PodIP = ''10.0.0.8''\<rparr>]
      else if FieldSelector opts = ''spec.nodeName=down'' then
        Inl (External ''timeout'')
      else Inr [])"

definition ex_tunnel :: "ProxyOptions \<Rightarrow> error + stream" where
  "ex_tunnel opts = (if ProxyOptions.NodeName opts = ''far'' then Inl (External ''no route'') else Inr 7)"

text \<open>The only 16-byte addresses of the examples are the loopback address \<open>::1\<close> and
  the unspecified address \<open>::\<close>. For the parameter \<open>ip16\<close> the examples take a
  printer that is Go's on these two addresses and stands for nothing on any other.\<close>

definition ex_ip16 :: "byte list \<Rightarrow> string" where
  "ex_ip16 ip =
     (if ip = [0, 0, 0, 0, 0, 0, 0, 0, 0, 0, 0, 0, 0, 0, 0, 1] then ''::1'' else ''::'')"

definition ex_proxy :: Socks5Proxy where
  "ex_proxy = fst (NewSocks5Proxy ex_ip16 None [127, 0, 0, 1] 1080 ''edge-1'' ex_kube)"

text \<open>A fresh connection with the given segments to read, on which every write
  succeeds.\<close>

definition ex_conn :: "byte list list \<Rightarrow> Conn" where
  "ex_conn segs = \<lparr>inbound = segs, wfails = [], trace = []\<rparr>"

text \<open>The handshake \<^verbatim>\<open>05 01 00\<close> and a request for a domain name: command, name, port
  \<open>0x1f90 = 8080\<close>.\<close>

definition ex_hello :: "byte list" where
  "ex_hello = [0x05, 0x01, 0x00]"

definition ex_request :: "byte \<Rightarrow> string \<Rightarrow> byte list" where
  "ex_request cmd name =
     [0x05, cmd, 0x00, 0x03, word_of_nat (length name)] @ bytes_of_string name @ [0x1f, 0x90]"

text \<open>The proxy of the examples once it holds the request for a domain name with the
  given command, and a connection on which nothing is left to read, with its trace.\<close>

definition ex_parsed :: "byte \<Rightarrow> string \<Rightarrow> Socks5Proxy" where
  "ex_parsed cmd name =
     ex_proxy\<lparr>SocksHandle :=
       \<lparr>Request = \<lparr>ReqVersion = 0x05, Command = cmd, Rsv = 0x00, AddressType = 0x03,
                    DstAddr = name, DstPort = 8080\<rparr>\<rparr>\<rparr>"

definition ex_trace :: "event list \<Rightarrow> Conn" where
  "ex_trace evs = \<lparr>inbound = [], wfails = [], trace = evs\<rparr>"

lemmas ex_defs =
  ex_kube_def ex_tunnel_def ex_proxy_def ex_ip16_def ex_conn_def ex_hello_def ex_request_def
  ex_parsed_def ex_trace_def NewSocks5Proxy_def

section \<open>Lemmas about the library functions\<close>

lemma uint_BigEndian_Uint16: "uint (BigEndian_Uint16 [p0, p1]) = 256 * uint p0 + uint p1"
proof -
  have disj: "(ucast p1 :: 16 word) AND push_bit 8 (ucast p0 :: 16 word) = 0"
    by (rule bit_eqI) (auto simp: bit_simps dest: bit_imp_le_length)
  have lo: "uint (ucast p1 :: 16 word) = uint p1"
    by (simp add: uint_up_ucast is_up)
  have b0: "uint p0 < 256" and b1: "uint p1 < 256"
    using uint_lt2p [of p0] uint_lt2p [of p1] by simp_all
  have hi: "uint (push_bit 8 (ucast p0 :: 16 word)) = 256 * uint p0"
    using b0 by (simp add: push_bit_eq_mult uint_word_ariths uint_up_ucast is_up)
  have "BigEndian_Uint16 [p0, p1] = (ucast p1 :: 16 word) + push_bit 8 (ucast p0 :: 16 word)"
    by (simp add: BigEndian_Uint16_def disjunctive_add_eq_or [OF disj])
  then show ?thesis
    using b0 b1 by (simp add: uint_word_ariths lo hi)
qed

lemma sint_port: "sint (ucast (BigEndian_Uint16 [p0, p1]) :: 32 word) = 256 * uint p0 + uint p1"
proof -
  let ?w = "BigEndian_Uint16 [p0, p1]"
  have up: "uint (ucast ?w :: 32 word) = uint ?w"
    by (simp add: uint_up_ucast is_up)
  have "uint ?w < 2 ^ 16" using uint_lt2p [of ?w] by simp
  then have "uint ?w < 2 ^ 31" by simp
  moreover have "- (2 ^ 31) \<le> uint ?w"
    by (rule order_trans [of _ 0]) simp_all
  ultimately have "signed_take_bit 31 (uint ?w) = uint ?w"
    by (intro signed_take_bit_int_eq_self)
  then have "sint (ucast ?w :: 32 word) = uint ?w"
    by (simp add: sint_uint up)
  then show ?thesis by (simp add: uint_BigEndian_Uint16)
qed

lemma decimal_below_256:
  assumes "x < 256"
  shows "decimal x =
           (if x < 10 then [digit x]
            else if x < 100 then [digit (x div 10), digit (x mod 10)]
            else [digit (x div 100), digit ((x div 10) mod 10), digit (x mod 10)])"
proof -
  consider "x < 10" | "10 \<le> x" "x < 100" | "100 \<le> x" by linarith
  then show ?thesis
  proof cases
    case 1
    then show ?thesis by (simp add: decimal.simps [of x])
  next
    case 2
    then have "x div 10 < 10" by simp
    then have "decimal (x div 10) = [digit (x div 10)]"
      by (simp add: decimal.simps [of "x div 10"])
    with 2 show ?thesis by (simp add: decimal.simps [of x])
  next
    case 3
    have h: "x div 10 div 10 = x div 100" by (simp add: div_mult2_eq [symmetric])
    from assms have "x div 100 < 10" by simp
    then have "decimal (x div 100) = [digit (x div 100)]"
      by (simp add: decimal.simps [of "x div 100"])
    moreover from 3 have "\<not> x div 10 < 10" by simp
    ultimately have "decimal (x div 10) = [digit (x div 100), digit ((x div 10) mod 10)]"
      by (simp add: decimal.simps [of "x div 10"] h)
    with 3 show ?thesis by (simp add: decimal.simps [of x])
  qed
qed

lemma ubtoa_decimal: "ubtoa v = decimal (unat v)"
proof -
  have "unat v < 256" using unsigned_less [of v, where ?'a = nat] by simp
  then show ?thesis by (simp add: ubtoa_def Let_def decimal_below_256)
qed

lemma net_IP_String_dotted:
  "net_IP_String ip16 [a0, a1, a2, a3] = dotted_decimal [a0, a1, a2, a3]"
  by (simp add: net_IP_String_def dotted_decimal_def ubtoa_decimal)

lemma byte_of_char_of: "word_of_nat (of_char (char_of (unat b) :: char)) = (b::byte)"
proof -
  have "unat b < 256" using unsigned_less [of b, where ?'a = nat] by simp
  then show ?thesis by simp
qed

lemma bytes_of_string_of_bytes: "bytes_of_string (string_of_bytes bs) = bs"
  by (induction bs)
    (simp_all add: bytes_of_string_def string_of_bytes_def byte_of_char_of del: of_char_of)

lemma strings_Contains_sublist: "strings_Contains s substr \<longleftrightarrow> sublist substr s"
  by (induction s) (simp_all add: sublist_Cons_right)

section \<open>Lemmas about the connection and the loops\<close>

lemma conn_Read_segment:
  assumes "xs \<noteq> []" and "inbound c = (xs @ ys) # rest"
  shows "conn_Read (length xs) c =
           (Inr xs, c\<lparr>inbound := (if ys = [] then rest else ys # rest)\<rparr>)"
  using assms by (simp add: conn_Read_def)

lemma method_flag_foldl:
  "foldl (\<lambda>flag m. if m = DefaultMethod then True else flag) b ms = (b \<or> DefaultMethod \<in> set ms)"
  by (induction ms arbitrary: b) auto

lemma method_flag_iff: "method_flag ms \<longleftrightarrow> DefaultMethod \<in> set ms"
  by (simp add: method_flag_def method_flag_foldl)

lemma pod_step_agent: "pod_step acc pod = (if is_agent_pod pod then (PodIP pod, None) else acc)"
  by (simp add: pod_step_def is_agent_pod_def strings_Contains_sublist)

lemma foldl_pod_step:
  "foldl pod_step acc items =
     (if filter is_agent_pod items = [] then acc
      else (PodIP (last (filter is_agent_pod items)), None))"
  by (induction items rule: rev_induct) (simp_all add: pod_step_agent)

lemma is_agent_pod_code: "is_agent_pod pod = strings_Contains (Name pod) AgentPodName"
  by (simp add: is_agent_pod_def strings_Contains_sublist)

section \<open>The claims\<close>

text \<open>
  C7. For every node name, the resolver queries the backend once and returns the pod IP
  of the last item of the listing whose name contains the agent's name when at least one
  item matches, with no error; when no item matches it returns the not-found error, and
  when the backend call fails it returns that error; in both cases the IP is the empty
  string.
\<close>

theorem getTargetIpByNodeName_last_match:
  "(kubeClient s ns (pod_query nodeName) = Inl err \<longrightarrow>
      getTargetIpByNodeName ns s nodeName c =
        (([], Some err), emit (EvList ns (pod_query nodeName)) c)) \<and>
   (kubeClient s ns (pod_query nodeName) = Inr items \<and> filter is_agent_pod items = [] \<longrightarrow>
      getTargetIpByNodeName ns s nodeName c =
        (([], Some (not_found nodeName)), emit (EvList ns (pod_query nodeName)) c)) \<and>
   (kubeClient s ns (pod_query nodeName) = Inr items \<and> filter is_agent_pod items \<noteq> [] \<longrightarrow>
      getTargetIpByNodeName ns s nodeName c =
        ((PodIP (last (filter is_agent_pod items)), None),
         emit (EvList ns (pod_query nodeName)) c))"
  by (simp add: getTargetIpByNodeName_def pod_query_def not_found_def Let_def foldl_pod_step)

theorem getTargetIpByNodeName_last_match_witness:
  "kubeClient ex_proxy ''kubeedge'' (pod_query ''down'') = Inl (External ''timeout'') \<and>
   fst (getTargetIpByNodeName ''kubeedge'' ex_proxy ''down'' (ex_conn [])) =
     ([], Some (External ''timeout'')) \<and>
   kubeClient ex_proxy ''kubeedge'' (pod_query ''lost'') = Inr [] \<and>
   fst (getTargetIpByNodeName ''kubeedge'' ex_proxy ''lost'' (ex_conn [])) =
     ([], Some (not_found ''lost'')) \<and>
   filter is_agent_pod
     [\<lparr>Name = ''edgemesh-agent-abc'', PodIP = ''10.0.0.9''\<rparr>,
      \<lparr>Name = ''edgemesh-agent-xyz'', PodIP = ''10.0.0.5''\<rparr>,
      \<lparr>Name = ''nginx'', PodIP = ''10.0.0.7''\<rparr>] \<noteq> [] \<and>
   getTargetIpByNodeName ''kubeedge'' ex_proxy ''my-node1'' (ex_conn []) =
     ((''10.0.0.5'', None),
      \<lparr>inbound = [], wfails = [],
       trace = [EvList ''kubeedge'' \<lparr>FieldSelector = ''spec.nodeName=my-node1'',
                                        LabelSelector = ''kubeedge=edgemesh-agent''\<rparr>]\<rparr>)"
  using
    getTargetIpByNodeName_last_match [of ex_proxy "''kubeedge''" "''down''" "External ''timeout''"
      "ex_conn []" "[]"]
    getTargetIpByNodeName_last_match [of ex_proxy "''kubeedge''" "''lost''" "External ''timeout''"
      "ex_conn []" "[]"]
    getTargetIpByNodeName_last_match [of ex_proxy "''kubeedge''" "''my-node1''" "External ''timeout''"
      "ex_conn []"
      "[\<lparr>Name = ''edgemesh-agent-abc'', PodIP = ''10.0.0.9''\<rparr>,
        \<lparr>Name = ''edgemesh-agent-xyz'', PodIP = ''10.0.0.5''\<rparr>,
        \<lparr>Name = ''nginx'', PodIP = ''10.0.0.7''\<rparr>]"]
  by (simp add: ex_defs pod_query_def is_agent_pod_code AgentPodName_def emit_def LabelKubeedge_def)

subsection \<open>The handshake\<close>

lemma conn_Write_ok:
  "\<not> write_fails c \<Longrightarrow> fst (conn_Write bs c) = None \<and>
     trace (snd (conn_Write bs c)) = trace c @ [EvWrite bs True]"
  by (simp add: conn_Write_def write_fails_def emit_def split: list.splits)

lemma conn_Write_fails:
  "write_fails c \<Longrightarrow> fst (conn_Write bs c) = Some WriteError \<and>
     trace (snd (conn_Write bs c)) = trace c @ [EvWrite bs False]"
  by (simp add: conn_Write_def write_fails_def emit_def split: list.splits)

lemma handShake_header:
  assumes "inbound c = (ver # cnt # ms @ extra) # rest"
  shows "conn_Read 2 c =
           (Inr [ver, cnt], c\<lparr>inbound := (if ms @ extra = [] then rest else (ms @ extra) # rest)\<rparr>)"
  using assms by (simp add: conn_Read_def)

lemma handShake_rejects:
  assumes "inbound c = (ver # cnt # ms @ extra) # rest" and "length ms = unat cnt"
    and "ver \<noteq> 0x05 \<or> cnt = 0 \<or> 0x00 \<notin> set ms"
  shows "fst (handShake c) \<noteq> None \<and> trace (snd (handShake c)) = trace c"
proof (cases "ver = 0x05 \<and> cnt \<noteq> 0")
  case False
  then show ?thesis
    by (auto simp: handShake_def handShake_header [OF assms(1)] Version_def)
next
  case True
  then have ne: "ms \<noteq> []" using assms(2) by (auto simp: unat_eq_0)
  let ?c1 = "c\<lparr>inbound := (ms @ extra) # rest\<rparr>"
  have r2: "conn_Read (unat cnt) ?c1 =
              (Inr ms, ?c1\<lparr>inbound := (if extra = [] then rest else extra # rest)\<rparr>)"
    using conn_Read_segment [of ms ?c1 extra rest] ne assms(2) by simp
  from True assms(3) have "\<not> method_flag ms"
    by (simp add: method_flag_iff DefaultMethod_def)
  with True ne show ?thesis
    by (simp add: handShake_def handShake_header [OF assms(1)] r2 Version_def)
qed

lemma handShake_accepts:
  assumes "inbound c = (ver # cnt # ms @ extra) # rest" and "length ms = unat cnt"
    and "ver = 0x05" and "cnt \<noteq> 0" and "0x00 \<in> set ms"
  shows "handShake c =
           conn_Write [0x05, 0x00] (c\<lparr>inbound := (if extra = [] then rest else extra # rest)\<rparr>)"
proof -
  have ne: "ms \<noteq> []" using assms(2,4) by (auto simp: unat_eq_0)
  let ?c1 = "c\<lparr>inbound := (ms @ extra) # rest\<rparr>"
  have r2: "conn_Read (unat cnt) ?c1 =
              (Inr ms, ?c1\<lparr>inbound := (if extra = [] then rest else extra # rest)\<rparr>)"
    using conn_Read_segment [of ms ?c1 extra rest] ne assms(2) by simp
  from assms(5) have "method_flag ms"
    by (simp add: method_flag_iff DefaultMethod_def)
  with assms(3,4) ne show ?thesis
    by (simp add: handShake_def handShake_header [OF assms(1)] r2 Version_def Success_def)
qed

text \<open>
  What holds of the handshake when the connection holds the whole message (version byte,
  method count, that many method bytes) in the first segment of its inbound stream: if
  the version is \<open>0x05\<close>, the count is not zero and one of the method bytes is
  \<open>0x00\<close>, the handshake makes one write, of exactly the two bytes \<open>0x05 0x00\<close>, and
  returns no error when that write succeeds (the write's error when it fails); if the
  version differs, the count is zero or no method byte is \<open>0x00\<close>, it returns an error
  and writes nothing. A message that arrives in several segments is another matter, see
  the last section.
\<close>

lemma handShake_no_auth:
  assumes "inbound c = (ver # cnt # ms @ extra) # rest" and "length ms = unat cnt"
  shows "(ver = 0x05 \<and> cnt \<noteq> 0 \<and> 0x00 \<in> set ms \<and> \<not> write_fails c \<longrightarrow>
            fst (handShake c) = None \<and>
            trace (snd (handShake c)) = trace c @ [EvWrite [0x05, 0x00] True]) \<and>
         (ver = 0x05 \<and> cnt \<noteq> 0 \<and> 0x00 \<in> set ms \<and> write_fails c \<longrightarrow>
            fst (handShake c) = Some WriteError \<and>
            trace (snd (handShake c)) = trace c @ [EvWrite [0x05, 0x00] False]) \<and>
         (ver \<noteq> 0x05 \<or> cnt = 0 \<or> 0x00 \<notin> set ms \<longrightarrow>
            fst (handShake c) \<noteq> None \<and> trace (snd (handShake c)) = trace c)"
proof (intro conjI impI)
  let ?c2 = "c\<lparr>inbound := (if extra = [] then rest else extra # rest)\<rparr>"
  have w: "write_fails ?c2 = write_fails c" "trace ?c2 = trace c"
    by (simp_all add: write_fails_def)
  {
    assume a: "ver = 0x05 \<and> cnt \<noteq> 0 \<and> 0x00 \<in> set ms \<and> \<not> write_fails c"
    then have h: "handShake c = conn_Write [0x05, 0x00] ?c2"
      using handShake_accepts [OF assms] by simp
    from a have "\<not> write_fails ?c2" by (simp add: w)
    from conn_Write_ok [OF this, of "[0x05, 0x00]"]
    show "fst (handShake c) = None"
      and "trace (snd (handShake c)) = trace c @ [EvWrite [0x05, 0x00] True]"
      by (simp_all add: h w)
  }
  {
    assume a: "ver = 0x05 \<and> cnt \<noteq> 0 \<and> 0x00 \<in> set ms \<and> write_fails c"
    then have h: "handShake c = conn_Write [0x05, 0x00] ?c2"
      using handShake_accepts [OF assms] by simp
    from a have "write_fails ?c2" by (simp add: w)
    from conn_Write_fails [OF this, of "[0x05, 0x00]"]
    show "fst (handShake c) = Some WriteError"
      and "trace (snd (handShake c)) = trace c @ [EvWrite [0x05, 0x00] False]"
      by (simp_all add: h w)
  }
  {
    assume a: "ver \<noteq> 0x05 \<or> cnt = 0 \<or> 0x00 \<notin> set ms"
    from handShake_rejects [OF assms a]
    show "fst (handShake c) \<noteq> None" and "trace (snd (handShake c)) = trace c"
      by simp_all
  }
qed

lemma handShake_no_auth_example:
  "inbound (ex_conn [[0x05, 0x02, 0x01, 0x00, 0x09]]) = (0x05 # 0x02 # [0x01, 0x00] @ [0x09]) # [] \<and>
   length [0x01, 0x00 :: byte] = unat (0x02 :: byte) \<and>
   \<not> write_fails (ex_conn [[0x05, 0x02, 0x01, 0x00, 0x09]]) \<and>
   handShake (ex_conn [[0x05, 0x02, 0x01, 0x00, 0x09]]) =
     (None, \<lparr>inbound = [[0x09]], wfails = [], trace = [EvWrite [0x05, 0x00] True]\<rparr>) \<and>
   write_fails (ex_conn [[0x05, 0x01, 0x00]]\<lparr>wfails := [True]\<rparr>) \<and>
   fst (handShake (ex_conn [[0x05, 0x01, 0x00]]\<lparr>wfails := [True]\<rparr>)) = Some WriteError \<and>
   handShake (ex_conn [[0x05, 0x02, 0x01, 0x02]]) =
     (Some (Errorf ''this method is not yet supported''),
      \<lparr>inbound = [], wfails = [], trace = []\<rparr>) \<and>
   handShake (ex_conn [[0x04, 0x01, 0x00]]) =
     (Some (Errorf ''invalid version''), \<lparr>inbound = [[0x00]], wfails = [], trace = []\<rparr>)"
  using
    handShake_no_auth [of "ex_conn [[0x05, 0x02, 0x01, 0x00, 0x09]]" "0x05" "0x02" "[0x01, 0x00]" "[0x09]" "[]"]
    handShake_no_auth [of "ex_conn [[0x05, 0x01, 0x00]]\<lparr>wfails := [True]\<rparr>" "0x05" "0x01" "[0x00]" "[]" "[]"]
    handShake_no_auth [of "ex_conn [[0x05, 0x02, 0x01, 0x02]]" "0x05" "0x02" "[0x01, 0x02]" "[]" "[]"]
    handShake_no_auth [of "ex_conn [[0x04, 0x01, 0x00]]" "0x04" "0x01" "[0x00]" "[]" "[]"]
  by (simp add: ex_defs write_fails_def handShake_def conn_Read_def conn_Write_def emit_def
      method_flag_def socks_consts)

subsection \<open>The request\<close>

lemma NewRequest_port_ok:
  assumes "inbound c = (p0 # p1 # extra) # rest"
  shows "NewRequest_port s data host c =
           (None,
            s\<lparr>Request := \<lparr>ReqVersion = data ! 0, Command = data ! 1, Rsv = data ! 2,
                           AddressType = data ! 3, DstAddr = host,
                           DstPort = ucast (BigEndian_Uint16 [p0, p1])\<rparr>\<rparr>,
            c\<lparr>inbound := (if extra = [] then rest else extra # rest)\<rparr>)"
  using assms by (simp add: NewRequest_port_def conn_Read_def)

lemma NewRequest_header:
  assumes "inbound c = (ver # cmd # rsv # atyp # a # body) # rest"
  shows "conn_Read 4 c = (Inr [ver, cmd, rsv, atyp], c\<lparr>inbound := (a # body) # rest\<rparr>)"
  using assms by (simp add: conn_Read_def)

lemma NewRequest_IPv4:
  assumes "inbound c = (0x05 # cmd # rsv # 0x01 # a0 # a1 # a2 # a3 # p0 # p1 # extra) # rest"
  shows "NewRequest ip16 s c =
           (None,
            s\<lparr>Request := \<lparr>ReqVersion = 0x05, Command = cmd, Rsv = rsv, AddressType = 0x01,
                           DstAddr = dotted_decimal [a0, a1, a2, a3],
                           DstPort = ucast (BigEndian_Uint16 [p0, p1])\<rparr>\<rparr>,
            c\<lparr>inbound := (if extra = [] then rest else extra # rest)\<rparr>)"
proof -
  let ?c1 = "c\<lparr>inbound := (a0 # a1 # a2 # a3 # p0 # p1 # extra) # rest\<rparr>"
  let ?c2 = "c\<lparr>inbound := (p0 # p1 # extra) # rest\<rparr>"
  have r1: "conn_Read 4 c = (Inr [0x05, cmd, rsv, 0x01], ?c1)"
    using assms by (rule NewRequest_header)
  have r2: "conn_Read 4 ?c1 = (Inr [a0, a1, a2, a3], ?c2)"
    by (simp add: conn_Read_def)
  have r3: "NewRequest_port s [0x05, cmd, rsv, 0x01] (dotted_decimal [a0, a1, a2, a3]) ?c2 =
          (None,
            s\<lparr>Request := \<lparr>ReqVersion = 0x05, Command = cmd, Rsv = rsv, AddressType = 0x01,
                           DstAddr = dotted_decimal [a0, a1, a2, a3],
                           DstPort = ucast (BigEndian_Uint16 [p0, p1])\<rparr>\<rparr>,
            c\<lparr>inbound := (if extra = [] then rest else extra # rest)\<rparr>)"
    using NewRequest_port_ok [of ?c2 p0 p1 extra rest s "[0x05, cmd, rsv, 0x01]"] by simp
  show ?thesis
    by (simp add: NewRequest_def r1 r2 r3 net_IP_String_dotted Version_def ATYPIPv4_def)
qed

lemma NewRequest_IPv6:
  assumes "inbound c = (0x05 # cmd # rsv # 0x04 # addr @ p0 # p1 # extra) # rest"
    and "length addr = 16"
  shows "NewRequest ip16 s c =
           (None,
            s\<lparr>Request := \<lparr>ReqVersion = 0x05, Command = cmd, Rsv = rsv, AddressType = 0x04,
                           DstAddr = ip16 addr,
                           DstPort = ucast (BigEndian_Uint16 [p0, p1])\<rparr>\<rparr>,
            c\<lparr>inbound := (if extra = [] then rest else extra # rest)\<rparr>)"
proof -
  let ?c1 = "c\<lparr>inbound := (addr @ p0 # p1 # extra) # rest\<rparr>"
  let ?c2 = "c\<lparr>inbound := (p0 # p1 # extra) # rest\<rparr>"
  from assms(2) obtain a body where ab: "addr = a # body" by (cases addr) auto
  have r1: "conn_Read 4 c = (Inr [0x05, cmd, rsv, 0x04], ?c1)"
    using assms(1) NewRequest_header [of c "0x05" cmd rsv "0x04" a "body @ p0 # p1 # extra" rest]
    by (simp add: ab)
  have "conn_Read (length addr) ?c1 = (Inr addr, ?c1\<lparr>inbound := (p0 # p1 # extra) # rest\<rparr>)"
    using conn_Read_segment [of addr ?c1 "p0 # p1 # extra" rest] ab by simp
  then have r2: "conn_Read 16 ?c1 = (Inr addr, ?c2)"
    by (simp add: assms(2))
  have r3: "NewRequest_port s [0x05, cmd, rsv, 0x04] (ip16 addr) ?c2 =
          (None,
            s\<lparr>Request := \<lparr>ReqVersion = 0x05, Command = cmd, Rsv = rsv, AddressType = 0x04,
                           DstAddr = ip16 addr,
                           DstPort = ucast (BigEndian_Uint16 [p0, p1])\<rparr>\<rparr>,
            c\<lparr>inbound := (if extra = [] then rest else extra # rest)\<rparr>)"
    using NewRequest_port_ok [of ?c2 p0 p1 extra rest s "[0x05, cmd, rsv, 0x04]"] by simp
  show ?thesis
    by (simp add: NewRequest_def r1 r2 r3 net_IP_String_def assms(2) Version_def ATYPIPv4_def
        ATYPIPv6_def)
qed

lemma NewRequest_Domain:
  assumes "inbound c = (0x05 # cmd # rsv # 0x03 # n # name @ p0 # p1 # extra) # rest"
    and "length name = unat n"
  shows "NewRequest ip16 s c =
           (None,
            s\<lparr>Request := \<lparr>ReqVersion = 0x05, Command = cmd, Rsv = rsv, AddressType = 0x03,
                           DstAddr = string_of_bytes name,
                           DstPort = ucast (BigEndian_Uint16 [p0, p1])\<rparr>\<rparr>,
            c\<lparr>inbound := (if extra = [] then rest else extra # rest)\<rparr>)"
proof -
  let ?c1 = "c\<lparr>inbound := (n # name @ p0 # p1 # extra) # rest\<rparr>"
  let ?c2 = "c\<lparr>inbound := (name @ p0 # p1 # extra) # rest\<rparr>"
  let ?c3 = "c\<lparr>inbound := (p0 # p1 # extra) # rest\<rparr>"
  have r1: "conn_Read 4 c = (Inr [0x05, cmd, rsv, 0x03], ?c1)"
    using assms(1) by (rule NewRequest_header)
  have r2: "conn_Read (Suc 0) ?c1 = (Inr [n], ?c2)"
    by (simp add: conn_Read_def)
  have r3: "conn_Read (unat n) ?c2 = (Inr name, ?c3)"
  proof (cases "name = []")
    case True
    with assms(2) show ?thesis by (simp add: conn_Read_def)
  next
    case False
    then show ?thesis
      using conn_Read_segment [of name ?c2 "p0 # p1 # extra" rest] assms(2) by simp
  qed
  have r4: "NewRequest_port s [0x05, cmd, rsv, 0x03] (string_of_bytes name) ?c3 =
          (None,
            s\<lparr>Request := \<lparr>ReqVersion = 0x05, Command = cmd, Rsv = rsv, AddressType = 0x03,
                           DstAddr = string_of_bytes name,
                           DstPort = ucast (BigEndian_Uint16 [p0, p1])\<rparr>\<rparr>,
            c\<lparr>inbound := (if extra = [] then rest else extra # rest)\<rparr>)"
    using NewRequest_port_ok [of ?c3 p0 p1 extra rest s "[0x05, cmd, rsv, 0x03]"] by simp
  show ?thesis
    by (simp add: NewRequest_def r1 r2 r3 r4 Version_def ATYPIPv4_def ATYPIPv6_def ATYPDomain_def)
qed

lemma ex_name_string:
  "string_of_bytes [0x6d, 0x79, 0x2d, 0x6e, 0x6f, 0x64, 0x65, 0x31] = ''my-node1''"
  by code_simp

text \<open>
  What holds of the request reader when the connection holds the whole request message
  (version \<open>0x05\<close>, address type IPv4, domain or IPv6) in the first segment of its
  inbound stream: it returns no error and stores a request with the four header bytes as
  read, in which: for IPv4 the destination address is the dotted-decimal rendering of the
  four address bytes; for a domain, with length byte \<open>n\<close> and \<open>n\<close> name bytes, it is
  the string of exactly those \<open>n\<close> bytes; for IPv6 it is the printed sixteen bytes; and
  the destination port, read as a signed 32-bit value, is the big-endian unsigned value of
  the two port bytes. A message that arrives in several segments is another matter, see
  the last section.
\<close>

lemma NewRequest_decodes:
  "(inbound c = (0x05 # cmd # rsv # 0x01 # a0 # a1 # a2 # a3 # p0 # p1 # extra) # rest \<longrightarrow>
      fst (NewRequest ip16 s c) = None \<and>
      (let r = Request (fst (snd (NewRequest ip16 s c))) in
         ReqVersion r = 0x05 \<and> Command r = cmd \<and> Rsv r = rsv \<and> AddressType r = ATYPIPv4 \<and>
         DstAddr r = dotted_decimal [a0, a1, a2, a3] \<and>
         sint (DstPort r) = 256 * uint p0 + uint p1)) \<and>
   (inbound c = (0x05 # cmd # rsv # 0x03 # n # name @ p0 # p1 # extra) # rest \<and>
    length name = unat n \<longrightarrow>
      fst (NewRequest ip16 s c) = None \<and>
      (let r = Request (fst (snd (NewRequest ip16 s c))) in
         ReqVersion r = 0x05 \<and> Command r = cmd \<and> Rsv r = rsv \<and> AddressType r = ATYPDomain \<and>
         bytes_of_string (DstAddr r) = name \<and> length (DstAddr r) = unat n \<and>
         sint (DstPort r) = 256 * uint p0 + uint p1)) \<and>
   (inbound c = (0x05 # cmd # rsv # 0x04 # addr @ p0 # p1 # extra) # rest \<and>
    length addr = 16 \<longrightarrow>
      fst (NewRequest ip16 s c) = None \<and>
      (let r = Request (fst (snd (NewRequest ip16 s c))) in
         ReqVersion r = 0x05 \<and> Command r = cmd \<and> Rsv r = rsv \<and> AddressType r = ATYPIPv6 \<and>
         DstAddr r = ip16 addr \<and>
         sint (DstPort r) = 256 * uint p0 + uint p1))"
proof (intro conjI impI)
  assume "inbound c = (0x05 # cmd # rsv # 0x01 # a0 # a1 # a2 # a3 # p0 # p1 # extra) # rest"
  note h = NewRequest_IPv4 [OF this, of ip16 s]
  show "fst (NewRequest ip16 s c) = None" by (simp add: h)
  show "let r = Request (fst (snd (NewRequest ip16 s c))) in
         ReqVersion r = 0x05 \<and> Command r = cmd \<and> Rsv r = rsv \<and> AddressType r = ATYPIPv4 \<and>
         DstAddr r = dotted_decimal [a0, a1, a2, a3] \<and>
         sint (DstPort r) = 256 * uint p0 + uint p1"
    by (simp add: h sint_port ATYPIPv4_def)
next
  assume a: "inbound c = (0x05 # cmd # rsv # 0x03 # n # name @ p0 # p1 # extra) # rest \<and>
    length name = unat n"
  note h = NewRequest_Domain [OF conjunct1 [OF a] conjunct2 [OF a], of ip16 s]
  show "fst (NewRequest ip16 s c) = None" by (simp add: h)
  have "length (string_of_bytes name) = unat n"
    using a by (simp add: string_of_bytes_def)
  then show "let r = Request (fst (snd (NewRequest ip16 s c))) in
         ReqVersion r = 0x05 \<and> Command r = cmd \<and> Rsv r = rsv \<and> AddressType r = ATYPDomain \<and>
         bytes_of_string (DstAddr r) = name \<and> length (DstAddr r) = unat n \<and>
         sint (DstPort r) = 256 * uint p0 + uint p1"
    by (simp add: h sint_port ATYPDomain_def bytes_of_string_of_bytes)
next
  assume a: "inbound c = (0x05 # cmd # rsv # 0x04 # addr @ p0 # p1 # extra) # rest \<and>
    length addr = 16"
  note h = NewRequest_IPv6 [OF conjunct1 [OF a] conjunct2 [OF a], of ip16 s]
  show "fst (NewRequest ip16 s c) = None" by (simp add: h)
  show "let r = Request (fst (snd (NewRequest ip16 s c))) in
         ReqVersion r = 0x05 \<and> Command r = cmd \<and> Rsv r = rsv \<and> AddressType r = ATYPIPv6 \<and>
         DstAddr r = ip16 addr \<and>
         sint (DstPort r) = 256 * uint p0 + uint p1"
    by (simp add: h sint_port ATYPIPv6_def)
qed

lemma NewRequest_decodes_example:
  "NewRequest ex_ip16 (SocksHandle ex_proxy)
       (ex_conn [[0x05, 0x01, 0x00, 0x01, 192, 168, 0, 1, 0x1f, 0x90]]) =
     (None,
      \<lparr>Request = \<lparr>ReqVersion = 0x05, Command = 0x01, Rsv = 0x00, AddressType = 0x01,
                   DstAddr = ''192.168.0.1'', DstPort = 8080\<rparr>\<rparr>,
      ex_conn []) \<and>
   dotted_decimal [192, 168, 0, 1] = ''192.168.0.1'' \<and>
   sint (8080 :: 32 word) = 256 * uint (0x1f :: byte) + uint (0x90 :: byte) \<and>
   NewRequest ex_ip16 (SocksHandle ex_proxy) (ex_conn [ex_request 0x01 ''my-node1'']) =
     (None,
      \<lparr>Request = \<lparr>ReqVersion = 0x05, Command = 0x01, Rsv = 0x00, AddressType = 0x03,
                   DstAddr = ''my-node1'', DstPort = 8080\<rparr>\<rparr>,
      ex_conn []) \<and>
   length (bytes_of_string ''my-node1'') = unat (0x08 :: byte) \<and>
   NewRequest ex_ip16 (SocksHandle ex_proxy)
       (ex_conn [[0x05, 0x01, 0x00, 0x04, 0, 0, 0, 0, 0, 0, 0, 0, 0, 0, 0, 0, 0, 0, 0, 1,
                  0x00, 0x50]]) =
     (None,
      \<lparr>Request = \<lparr>ReqVersion = 0x05, Command = 0x01, Rsv = 0x00, AddressType = 0x04,
                   DstAddr = ''::1'', DstPort = 80\<rparr>\<rparr>,
      ex_conn [])"
  using
    NewRequest_decodes [of "ex_conn [[0x05, 0x01, 0x00, 0x01, 192, 168, 0, 1, 0x1f, 0x90]]"
      "0x01" "0x00" 192 168 0 1 "0x1f" "0x90" "[]" "[]" ex_ip16 "SocksHandle ex_proxy"
      "0x08" "[]" "[]"]
    NewRequest_decodes [of "ex_conn [ex_request 0x01 ''my-node1'']"
      "0x01" "0x00" 0 0 0 0 "0x1f" "0x90" "[]" "[]" ex_ip16 "SocksHandle ex_proxy"
      "0x08" "bytes_of_string ''my-node1''" "[]"]
    NewRequest_decodes [of "ex_conn [[0x05, 0x01, 0x00, 0x04, 0, 0, 0, 0, 0, 0, 0, 0, 0, 0, 0, 0,
        0, 0, 0, 1, 0x00, 0x50]]"
      "0x01" "0x00" 0 0 0 0 "0x00" "0x50" "[]" "[]" ex_ip16 "SocksHandle ex_proxy"
      "0x08" "[]" "[0, 0, 0, 0, 0, 0, 0, 0, 0, 0, 0, 0, 0, 0, 0, 1]"]
  by (simp add: ex_defs NewRequest_def NewRequest_port_def conn_Read_def net_IP_String_def
      ubtoa_def digit_def ex_name_string bytes_of_string_def BigEndian_Uint16_def
      dotted_decimal_def decimal_below_256 socks_consts)

subsection \<open>The trace of the parsing\<close>

lemma conn_Read_frame:
  assumes "conn_Read n c = (r, c')"
  shows "trace c' = trace c" and "wfails c' = wfails c"
  using assms by (auto simp: conn_Read_def split: if_splits list.splits)

lemma conn_Write_None:
  assumes "conn_Write bs c = (None, c')"
  shows "trace c' = trace c @ [EvWrite bs True]"
  using assms by (auto simp: conn_Write_def emit_def split: list.splits if_splits)

lemma handShake_trace:
  assumes "handShake c = (None, c')"
  shows "trace c' = trace c @ [EvWrite [0x05, 0x00] True]"
proof -
  obtain r1 c1 where r1: "conn_Read 2 c = (r1, c1)" by (cases "conn_Read 2 c")
  show ?thesis
  proof (cases r1)
    case (Inl e)
    with assms r1 show ?thesis by (simp add: handShake_def)
  next
    case (Inr data)
    obtain r2 c2 where r2: "conn_Read (unat (data ! 1)) c1 = (r2, c2)"
      by (cases "conn_Read (unat (data ! 1)) c1")
    show ?thesis
    proof (cases r2)
      case (Inl e)
      with assms r1 r2 Inr show ?thesis by (simp add: handShake_def split: if_splits)
    next
      case ms: (Inr ms)
      from assms r1 r2 Inr ms have "conn_Write [Version, Success] c2 = (None, c')"
        by (simp add: handShake_def split: if_splits)
      from conn_Write_None [OF this] conn_Read_frame(1) [OF r1] conn_Read_frame(1) [OF r2]
      show ?thesis by (simp add: Version_def Success_def)
    qed
  qed
qed

lemma NewRequest_port_trace:
  assumes "NewRequest_port h data host c = (e, h', c')"
  shows "trace c' = trace c"
proof -
  obtain r1 c1 where r1: "conn_Read 2 c = (r1, c1)" by (cases "conn_Read 2 c")
  with assms conn_Read_frame(1) [OF r1] show ?thesis
    by (cases r1) (auto simp: NewRequest_port_def)
qed

lemma NewRequest_trace:
  assumes "NewRequest ip16 h c = (e, h', c')"
  shows "trace c' = trace c"
proof -
  obtain r1 c1 where r1: "conn_Read 4 c = (r1, c1)" by (cases "conn_Read 4 c")
  note t1 = conn_Read_frame(1) [OF r1]
  show ?thesis
  proof (cases r1)
    case (Inl e1)
    with assms r1 t1 show ?thesis by (simp add: NewRequest_def)
  next
    case (Inr data)
    have body: "trace c' = trace c1"
    proof -
      consider (bad) "data ! 0 \<noteq> Version"
        | (v4) "data ! 0 = Version" "data ! 3 = ATYPIPv4"
        | (v6) "data ! 0 = Version" "data ! 3 \<noteq> ATYPIPv4" "data ! 3 = ATYPIPv6"
        | (dom) "data ! 0 = Version" "data ! 3 \<noteq> ATYPIPv4" "data ! 3 \<noteq> ATYPIPv6"
            "data ! 3 = ATYPDomain"
        | (other) "data ! 0 = Version" "data ! 3 \<noteq> ATYPIPv4" "data ! 3 \<noteq> ATYPIPv6"
            "data ! 3 \<noteq> ATYPDomain"
        by blast
      then show ?thesis
      proof cases
        case bad
        with assms r1 Inr show ?thesis by (simp add: NewRequest_def)
      next
        case v4
        obtain r2 c2 where r2: "conn_Read 4 c1 = (r2, c2)" by (cases "conn_Read 4 c1")
        with assms r1 Inr v4 conn_Read_frame(1) [OF r2] show ?thesis
          by (cases r2) (auto simp: NewRequest_def dest: NewRequest_port_trace)
      next
        case v6
        obtain r2 c2 where r2: "conn_Read 16 c1 = (r2, c2)" by (cases "conn_Read 16 c1")
        with assms r1 Inr v6 conn_Read_frame(1) [OF r2] show ?thesis
          by (cases r2) (auto simp: NewRequest_def dest: NewRequest_port_trace)
      next
        case dom
        obtain r2 c2 where r2: "conn_Read 1 c1 = (r2, c2)" by (cases "conn_Read 1 c1")
        note t2 = conn_Read_frame(1) [OF r2]
        show ?thesis
        proof (cases r2)
          case (Inl e2)
          with assms r1 Inr dom r2 t2 show ?thesis by (simp add: NewRequest_def)
        next
          case dal: (Inr dal)
          obtain r3 c3 where r3: "conn_Read (unat (dal ! 0)) c2 = (r3, c3)"
            by (cases "conn_Read (unat (dal ! 0)) c2")
          with assms r1 Inr dom r2 dal t2 conn_Read_frame(1) [OF r3] show ?thesis
            by (cases r3) (auto simp: NewRequest_def dest: NewRequest_port_trace)
        qed
      next
        case other
        with assms r1 Inr show ?thesis by (simp add: NewRequest_def)
      qed
    qed
    with t1 show ?thesis by simp
  qed
qed

lemma HandleSocksProxy_parse_ok:
  assumes "HandleSocksProxy_parse ip16 s c = (None, s1, c1)"
  shows "trace c1 = trace c @ [EvWrite [0x05, 0x00] True]"
    and "Socks5Proxy.NodeName s1 = Socks5Proxy.NodeName s"
    and "kubeClient s1 = kubeClient s"
proof -
  obtain e h c' where p: "ParsingConnect ip16 (SocksHandle s) c = (e, h, c')"
    by (cases "ParsingConnect ip16 (SocksHandle s) c") auto
  with assms have e: "e = None" and s1: "s1 = s\<lparr>SocksHandle := h\<rparr>" and c1: "c' = c1"
    by (simp_all add: HandleSocksProxy_parse_def)
  from s1 show "Socks5Proxy.NodeName s1 = Socks5Proxy.NodeName s" and "kubeClient s1 = kubeClient s"
    by simp_all
  obtain e0 c0 where hs: "handShake c = (e0, c0)" by (cases "handShake c")
  with p e c1 have e0: "e0 = None" and nr: "NewRequest ip16 (SocksHandle s) c0 = (None, h, c1)"
    by (auto simp: ParsingConnect_def split: option.splits)
  from handShake_trace [OF hs [unfolded e0]] NewRequest_trace [OF nr]
  show "trace c1 = trace c @ [EvWrite [0x05, 0x00] True]" by simp
qed

lemma HandleSocksProxy_parsed:
  assumes "HandleSocksProxy_parse ip16 s c = (None, s1, c1)"
  shows "HandleSocksProxy ip16 tunnel ns s (Some c) =
           (s1, Some (conn_Close (HandleSocksProxy_dispatch tunnel ns s1 c1)))"
  using assms by (simp add: HandleSocksProxy_def)

subsection \<open>The trace of the dispatch\<close>

lemma stream_requests_append: "stream_requests (xs @ ys) = stream_requests xs @ stream_requests ys"
  by (induction xs rule: stream_requests.induct) simp_all

lemma getTargetIpByNodeName_conn:
  "snd (getTargetIpByNodeName ns s nodeName c) = emit (EvList ns (pod_query nodeName)) c"
  by (simp add: getTargetIpByNodeName_def pod_query_def Let_def split: sum.splits)

lemma proxyConnectToRemote_no_stream:
  assumes "tunnel \<lparr>Protocol = ''tcp'', NodeName = host, IP = targetIP, Port = port\<rparr> = Inl e"
  shows "proxyConnectToRemote tunnel host targetIP port c =
           emit (EvGetProxyStream \<lparr>Protocol = ''tcp'', NodeName = host, IP = targetIP, Port = port\<rparr>) c"
  using assms by (simp add: proxyConnectToRemote_def Let_def)

lemma conn_Write_trace:
  "trace (snd (conn_Write bs c)) = trace c @ [EvWrite bs (\<not> write_fails c)]"
  by (simp add: conn_Write_def write_fails_def emit_def split: list.splits)

lemma proxyConnectToRemote_stream:
  assumes "tunnel \<lparr>Protocol = ''tcp'', NodeName = host, IP = targetIP, Port = port\<rparr> = Inr st"
  shows "trace (proxyConnectToRemote tunnel host targetIP port c) =
           trace c @
           [EvGetProxyStream \<lparr>Protocol = ''tcp'', NodeName = host, IP = targetIP, Port = port\<rparr>,
            EvWrite DefaultResponse (\<not> write_fails c), EvGoProxyConn st]"
proof -
  let ?c1 = "emit (EvGetProxyStream \<lparr>Protocol = ''tcp'', NodeName = host, IP = targetIP, Port = port\<rparr>) c"
  have w: "\<And>t. write_fails (c\<lparr>trace := t\<rparr>) = write_fails c" by (simp add: write_fails_def)
  have "proxyConnectToRemote tunnel host targetIP port c =
          emit (EvGoProxyConn st) (snd (conn_Write DefaultResponse ?c1))"
    using assms by (simp add: proxyConnectToRemote_def Let_def split: prod.splits)
  then show ?thesis
    using conn_Write_trace [of DefaultResponse ?c1] by (simp add: emit_def w)
qed



lemma dispatch_resolved:
  assumes "AddressType (Request (SocksHandle s)) = ATYPDomain"
    and "DstAddr (Request (SocksHandle s)) \<noteq> Socks5Proxy.NodeName s"
    and "fst (getTargetIpByNodeName ns s (DstAddr (Request (SocksHandle s))) c) = (ip, None)"
  shows "HandleSocksProxy_dispatch tunnel ns s c =
           (if Command (Request (SocksHandle s)) = CmdConnect
            then proxyConnectToRemote tunnel (DstAddr (Request (SocksHandle s))) ip
                   (DstPort (Request (SocksHandle s)))
                   (emit (EvList ns (pod_query (DstAddr (Request (SocksHandle s))))) c)
            else emit (EvList ns (pod_query (DstAddr (Request (SocksHandle s))))) c)"
proof -
  let ?g = "getTargetIpByNodeName ns s (DstAddr (Request (SocksHandle s))) c"
  have "?g = ((ip, None), emit (EvList ns (pod_query (DstAddr (Request (SocksHandle s))))) c)"
    using assms(3) getTargetIpByNodeName_conn [of ns s "DstAddr (Request (SocksHandle s))" c]
    by (cases ?g) simp
  with assms(1,2) show ?thesis
    by (simp add: HandleSocksProxy_dispatch_def Let_def)
qed



subsection \<open>The handler\<close>

lemma proxyConnectToRemote_requests:
  "stream_requests (trace (proxyConnectToRemote tunnel host targetIP port c)) =
     stream_requests (trace c) @
     [\<lparr>Protocol = ''tcp'', NodeName = host, IP = targetIP, Port = port\<rparr>]"
proof (cases "tunnel \<lparr>Protocol = ''tcp'', NodeName = host, IP = targetIP, Port = port\<rparr>")
  case (Inl e)
  with proxyConnectToRemote_no_stream [of tunnel host targetIP port e c] show ?thesis
    by (simp add: emit_def stream_requests_append)
next
  case (Inr st)
  with proxyConnectToRemote_stream [of tunnel host targetIP port st c] show ?thesis
    by (simp add: stream_requests_append)
qed

lemma HandleSocksProxy_run:
  assumes "HandleSocksProxy_parse ip16 s c = (None, s1, c1)"
    and "HandleSocksProxy ip16 tunnel ns s (Some c) = (s', Some c')"
  shows "s' = s1" and "c' = conn_Close (HandleSocksProxy_dispatch tunnel ns s1 c1)"
  using assms by (auto simp: HandleSocksProxy_def)



text \<open>
  C8. For every connection that reaches the dispatcher (parsed, policy passed, destination
  resolved, command CONNECT) and for which the tunnel returns an error instead of a
  stream: after the handshake reply the handler lists the pods, asks the tunnel for the
  stream and closes the connection, and nothing else: no write to the client (neither the
  success reply nor any other reply) and no relay.
\<close>

theorem HandleSocksProxy_tunnel_failure:
  assumes "HandleSocksProxy_parse ip16 s c = (None, s1, c1)"
    and "HandleSocksProxy ip16 tunnel ns s (Some c) = (s', Some c')"
    and "AddressType (Request (SocksHandle s1)) = ATYPDomain"
    and "DstAddr (Request (SocksHandle s1)) \<noteq> Socks5Proxy.NodeName s"
    and "Command (Request (SocksHandle s1)) = CmdConnect"
    and "fst (getTargetIpByNodeName ns s1 (DstAddr (Request (SocksHandle s1))) c1) = (ip, None)"
    and "tunnel \<lparr>Protocol = ''tcp'', NodeName = DstAddr (Request (SocksHandle s1)), IP = ip,
                  Port = DstPort (Request (SocksHandle s1))\<rparr> = Inl e"
  shows "trace c' =
           trace c @
           [EvWrite [0x05, 0x00] True,
            EvList ns (pod_query (DstAddr (Request (SocksHandle s1)))),
            EvGetProxyStream
              \<lparr>Protocol = ''tcp'', NodeName = DstAddr (Request (SocksHandle s1)), IP = ip,
               Port = DstPort (Request (SocksHandle s1))\<rparr>,
            EvClose]"
proof -
  note ok = HandleSocksProxy_parse_ok [OF assms(1)]
  note run = HandleSocksProxy_run [OF assms(1,2)]
  have self: "DstAddr (Request (SocksHandle s1)) \<noteq> Socks5Proxy.NodeName s1"
    using assms(4) by (simp add: ok(2))
  from dispatch_resolved [OF assms(3) self assms(6), of tunnel] assms(5)
    proxyConnectToRemote_no_stream [of tunnel "DstAddr (Request (SocksHandle s1))" ip
      "DstPort (Request (SocksHandle s1))" e
      "emit (EvList ns (pod_query (DstAddr (Request (SocksHandle s1))))) c1"] assms(7)
  show ?thesis
    by (simp add: run(2) conn_Close_def emit_def ok(1))
qed

text \<open>
  C9. For every call of the dispatcher in which the tunnel returns a stream: after the
  stream request the dispatcher makes one write, of exactly the ten bytes
  \<open>05 00 00 01 00 00 00 00 00 00\<close>, and then starts the relay on that stream, whether
  the write succeeded or failed.
\<close>

theorem proxyConnectToRemote_reply_and_relay:
  assumes "tunnel \<lparr>Protocol = ''tcp'', NodeName = host, IP = targetIP, Port = port\<rparr> = Inr st"
  shows "trace (proxyConnectToRemote tunnel host targetIP port c) =
           trace c @
           [EvGetProxyStream \<lparr>Protocol = ''tcp'', NodeName = host, IP = targetIP, Port = port\<rparr>,
            EvWrite [0x05, 0x00, 0x00, 0x01, 0, 0, 0, 0, 0, 0] (\<not> write_fails c),
            EvGoProxyConn st]"
  using proxyConnectToRemote_stream [of tunnel host targetIP port st c] assms
  by (simp add: socks_consts)

text \<open>
  C10, as amended. When the last pod of the listing whose name contains the agent's name
  has the empty string as pod IP, the resolver returns the empty string and no error, and for a CONNECT
  request that passed the policy check the handler goes on to ask the tunnel for a stream
  with the empty IP.
\<close>

theorem getTargetIpByNodeName_empty_ip:
  assumes "HandleSocksProxy_parse ip16 s c = (None, s1, c1)"
    and "HandleSocksProxy ip16 tunnel ns s (Some c) = (s', Some c')"
    and "AddressType (Request (SocksHandle s1)) = ATYPDomain"
    and "DstAddr (Request (SocksHandle s1)) \<noteq> Socks5Proxy.NodeName s"
    and "Command (Request (SocksHandle s1)) = CmdConnect"
    and "kubeClient s ns (pod_query (DstAddr (Request (SocksHandle s1)))) = Inr items"
    and "filter is_agent_pod items \<noteq> []"
    and "PodIP (last (filter is_agent_pod items)) = []"
  shows "fst (getTargetIpByNodeName ns s1 (DstAddr (Request (SocksHandle s1))) c1) = ([], None) \<and>
         stream_requests (trace c') =
           stream_requests (trace c) @
           [\<lparr>Protocol = ''tcp'', NodeName = DstAddr (Request (SocksHandle s1)), IP = [],
             Port = DstPort (Request (SocksHandle s1))\<rparr>]"
proof -
  note ok = HandleSocksProxy_parse_ok [OF assms(1)]
  note run = HandleSocksProxy_run [OF assms(1,2)]
  have self: "DstAddr (Request (SocksHandle s1)) \<noteq> Socks5Proxy.NodeName s1"
    using assms(4) by (simp add: ok(2))
  have g: "fst (getTargetIpByNodeName ns s1 (DstAddr (Request (SocksHandle s1))) c1) = ([], None)"
    using assms(6,7,8)
    by (simp add: getTargetIpByNodeName_def pod_query_def Let_def foldl_pod_step ok(3))
  from dispatch_resolved [OF assms(3) self g, of tunnel] assms(5)
  have "stream_requests (trace (HandleSocksProxy_dispatch tunnel ns s1 c1)) =
          stream_requests (trace c) @
           [\<lparr>Protocol = ''tcp'', NodeName = DstAddr (Request (SocksHandle s1)), IP = [],
             Port = DstPort (Request (SocksHandle s1))\<rparr>]"
    by (simp add: proxyConnectToRemote_requests emit_def ok(1) stream_requests_append)
  with g show ?thesis
    by (simp add: run(2) conn_Close_def emit_def stream_requests_append)
qed

subsection \<open>The example inputs, evaluated\<close>

lemma ex_handShake:
  "handShake (ex_conn (ex_hello # segs)) =
     (None, \<lparr>inbound = segs, wfails = [], trace = [EvWrite [0x05, 0x00] True]\<rparr>)"
  by (simp add: handShake_def conn_Read_def conn_Write_def emit_def method_flag_def ex_conn_def
      ex_hello_def socks_consts)

lemma string_of_bytes_of_string: "string_of_bytes (bytes_of_string s) = s"
proof -
  have "char_of (unat (word_of_nat (of_char ch) :: byte)) = ch" for ch :: char
  proof -
    have "of_char ch < (256 :: nat)" by simp
    then have "unat (word_of_nat (of_char ch) :: byte) = of_char ch"
      by (simp add: unat_of_nat)
    then show ?thesis by simp
  qed
  then show ?thesis
    by (induction s) (simp_all add: string_of_bytes_def bytes_of_string_def)
qed

lemma ex_port: "(ucast (BigEndian_Uint16 [0x1f, 0x90]) :: 32 word) = 8080"
  by (simp add: BigEndian_Uint16_def)

lemma ex_parse:
  assumes "length name < 256"
  shows "HandleSocksProxy_parse ip16 ex_proxy (ex_conn [ex_hello, ex_request cmd name]) =
           (None, ex_parsed cmd name, ex_trace [EvWrite [0x05, 0x00] True])"
proof -
  let ?c1 = "\<lparr>inbound = [ex_request cmd name], wfails = [], trace = [EvWrite [0x05, 0x00] True]\<rparr>"
  have len: "length (bytes_of_string name) = unat (word_of_nat (length name) :: byte)"
    using assms by (simp add: bytes_of_string_def unat_of_nat)
  have "inbound ?c1 =
          (0x05 # cmd # 0x00 # 0x03 # word_of_nat (length name) # bytes_of_string name @
             0x1f # 0x90 # []) # []"
    by (simp add: ex_request_def)
  from NewRequest_Domain [OF this len, of ip16 "SocksHandle ex_proxy"]
  have "NewRequest ip16 (SocksHandle ex_proxy) ?c1 =
          (None,
           \<lparr>Request = \<lparr>ReqVersion = 0x05, Command = cmd, Rsv = 0x00, AddressType = 0x03,
                        DstAddr = name, DstPort = 8080\<rparr>\<rparr>,
           ex_trace [EvWrite [0x05, 0x00] True])"
    by (simp add: string_of_bytes_of_string ex_port ex_trace_def ex_proxy_def NewSocks5Proxy_def)
  then show ?thesis
    by (simp add: HandleSocksProxy_parse_def ParsingConnect_def ex_handShake ex_parsed_def)
qed

lemma ex_run:
  assumes "length name < 256"
  shows "HandleSocksProxy ip16 tunnel ns ex_proxy (Some (ex_conn [ex_hello, ex_request cmd name])) =
           (ex_parsed cmd name,
            Some (conn_Close (HandleSocksProxy_dispatch tunnel ns (ex_parsed cmd name)
                    (ex_trace [EvWrite [0x05, 0x00] True]))))"
  using assms by (intro HandleSocksProxy_parsed ex_parse)

lemmas ex_eval =
  HandleSocksProxy_dispatch_def getTargetIpByNodeName_def pod_step_def
  proxyConnectToRemote_def conn_Write_def conn_Close_def emit_def Let_def pod_query_def
  ex_defs socks_consts


lemma ex_run_my_node1:
  "HandleSocksProxy ip16 ex_tunnel ''kubeedge'' ex_proxy
       (Some (ex_conn [ex_hello, ex_request 0x01 ''my-node1''])) =
     (ex_parsed 0x01 ''my-node1'',
      Some (ex_trace
        [EvWrite [0x05, 0x00] True,
         EvList ''kubeedge'' (pod_query ''my-node1''),
         EvGetProxyStream \<lparr>Protocol = ''tcp'', NodeName = ''my-node1'', IP = ''10.0.0.5'', Port = 8080\<rparr>,
         EvWrite [0x05, 0x00, 0x00, 0x01, 0, 0, 0, 0, 0, 0] True,
         EvGoProxyConn 7,
         EvClose]))"
  by (subst ex_run) (simp_all add: ex_eval)



lemma ex_run_far:
  "HandleSocksProxy ip16 ex_tunnel ''kubeedge'' ex_proxy
       (Some (ex_conn [ex_hello, ex_request 0x01 ''far''])) =
     (ex_parsed 0x01 ''far'',
      Some (ex_trace
        [EvWrite [0x05, 0x00] True,
         EvList ''kubeedge'' (pod_query ''far''),
         EvGetProxyStream \<lparr>Protocol = ''tcp'', NodeName = ''far'', IP = ''10.0.0.6'', Port = 8080\<rparr>,
         EvClose]))"
  by (subst ex_run) (simp_all add: ex_eval)

lemma ex_run_no_ip:
  "HandleSocksProxy ip16 ex_tunnel ''kubeedge'' ex_proxy
       (Some (ex_conn [ex_hello, ex_request 0x01 ''no-ip''])) =
     (ex_parsed 0x01 ''no-ip'',
      Some (ex_trace
        [EvWrite [0x05, 0x00] True,
         EvList ''kubeedge'' (pod_query ''no-ip''),
         EvGetProxyStream \<lparr>Protocol = ''tcp'', NodeName = ''no-ip'', IP = [], Port = 8080\<rparr>,
         EvWrite [0x05, 0x00, 0x00, 0x01, 0, 0, 0, 0, 0, 0] True,
         EvGoProxyConn 7,
         EvClose]))"
  by (subst ex_run) (simp_all add: ex_eval)

lemmas ex_unfold =
  ex_parsed_def ex_proxy_def NewSocks5Proxy_def ex_trace_def ex_conn_def ex_tunnel_def
  pod_query_def socks_consts


lemma ex_resolve_far:
  "fst (getTargetIpByNodeName ''kubeedge'' (ex_parsed cmd name) ''far'' c) = (''10.0.0.6'', None)"
  by (simp add: getTargetIpByNodeName_def pod_step_def Let_def ex_defs socks_consts)





theorem HandleSocksProxy_tunnel_failure_witness:
  "HandleSocksProxy_parse ex_ip16 ex_proxy (ex_conn [ex_hello, ex_request 0x01 ''far'']) =
     (None, ex_parsed 0x01 ''far'', ex_trace [EvWrite [0x05, 0x00] True]) \<and>
   AddressType (Request (SocksHandle (ex_parsed 0x01 ''far''))) = ATYPDomain \<and>
   DstAddr (Request (SocksHandle (ex_parsed 0x01 ''far''))) \<noteq> Socks5Proxy.NodeName ex_proxy \<and>
   Command (Request (SocksHandle (ex_parsed 0x01 ''far''))) = CmdConnect \<and>
   fst (getTargetIpByNodeName ''kubeedge'' (ex_parsed 0x01 ''far'') ''far''
          (ex_trace [EvWrite [0x05, 0x00] True])) = (''10.0.0.6'', None) \<and>
   ex_tunnel \<lparr>Protocol = ''tcp'', NodeName = ''far'', IP = ''10.0.0.6'', Port = 8080\<rparr> =
     Inl (External ''no route'') \<and>
   HandleSocksProxy ex_ip16 ex_tunnel ''kubeedge'' ex_proxy
       (Some (ex_conn [ex_hello, ex_request 0x01 ''far''])) =
     (ex_parsed 0x01 ''far'',
      Some (ex_trace
        [EvWrite [0x05, 0x00] True,
         EvList ''kubeedge'' (pod_query ''far''),
         EvGetProxyStream \<lparr>Protocol = ''tcp'', NodeName = ''far'', IP = ''10.0.0.6'', Port = 8080\<rparr>,
         EvClose]))"
proof -
  have p: "HandleSocksProxy_parse ex_ip16 ex_proxy (ex_conn [ex_hello, ex_request 0x01 ''far'']) =
     (None, ex_parsed 0x01 ''far'', ex_trace [EvWrite [0x05, 0x00] True])"
    by (rule ex_parse) simp
  have d: "AddressType (Request (SocksHandle (ex_parsed 0x01 ''far''))) = ATYPDomain"
    and n: "DstAddr (Request (SocksHandle (ex_parsed 0x01 ''far''))) \<noteq> Socks5Proxy.NodeName ex_proxy"
    and k: "Command (Request (SocksHandle (ex_parsed 0x01 ''far''))) = CmdConnect"
    by (simp_all add: ex_unfold)
  have a: "DstAddr (Request (SocksHandle (ex_parsed 0x01 ''far''))) = ''far''"
    and q: "DstPort (Request (SocksHandle (ex_parsed 0x01 ''far''))) = 8080"
    by (simp_all add: ex_unfold)
  have g: "fst (getTargetIpByNodeName ''kubeedge'' (ex_parsed 0x01 ''far'')
             (DstAddr (Request (SocksHandle (ex_parsed 0x01 ''far''))))
             (ex_trace [EvWrite [0x05, 0x00] True])) = (''10.0.0.6'', None)"
    by (simp add: a ex_resolve_far)
  have t: "ex_tunnel \<lparr>Protocol = ''tcp'',
             NodeName = DstAddr (Request (SocksHandle (ex_parsed 0x01 ''far''))),
             IP = ''10.0.0.6'', Port = DstPort (Request (SocksHandle (ex_parsed 0x01 ''far'')))\<rparr> =
           Inl (External ''no route'')"
    by (simp add: a q ex_tunnel_def)
  from HandleSocksProxy_tunnel_failure [OF p ex_run_far [of ex_ip16] d n k g t] g t
  show ?thesis
    by (simp add: p d n [unfolded a] k a q ex_run_far)
qed

theorem proxyConnectToRemote_reply_and_relay_witness:
  "ex_tunnel \<lparr>Protocol = ''tcp'', NodeName = ''my-node1'', IP = ''10.0.0.5'', Port = 8080\<rparr> = Inr 7 \<and>
   trace (proxyConnectToRemote ex_tunnel ''my-node1'' ''10.0.0.5'' 8080 (ex_trace [])) =
     [EvGetProxyStream \<lparr>Protocol = ''tcp'', NodeName = ''my-node1'', IP = ''10.0.0.5'', Port = 8080\<rparr>,
      EvWrite [0x05, 0x00, 0x00, 0x01, 0, 0, 0, 0, 0, 0] True,
      EvGoProxyConn 7] \<and>
   write_fails (ex_trace []\<lparr>wfails := [True]\<rparr>) \<and>
   trace (proxyConnectToRemote ex_tunnel ''my-node1'' ''10.0.0.5'' 8080
            (ex_trace []\<lparr>wfails := [True]\<rparr>)) =
     [EvGetProxyStream \<lparr>Protocol = ''tcp'', NodeName = ''my-node1'', IP = ''10.0.0.5'', Port = 8080\<rparr>,
      EvWrite [0x05, 0x00, 0x00, 0x01, 0, 0, 0, 0, 0, 0] False,
      EvGoProxyConn 7]"
proof -
  have t: "ex_tunnel \<lparr>Protocol = ''tcp'', NodeName = ''my-node1'', IP = ''10.0.0.5'', Port = 8080\<rparr> = Inr 7"
    by (simp add: ex_tunnel_def)
  from proxyConnectToRemote_reply_and_relay [of ex_tunnel "''my-node1''" "''10.0.0.5''" 8080 7
      "ex_trace []"]
    proxyConnectToRemote_reply_and_relay [of ex_tunnel "''my-node1''" "''10.0.0.5''" 8080 7
      "ex_trace []\<lparr>wfails := [True]\<rparr>"] t
  show ?thesis
    by (simp add: write_fails_def ex_trace_def)
qed

theorem getTargetIpByNodeName_empty_ip_witness:
  "HandleSocksProxy_parse ex_ip16 ex_proxy (ex_conn [ex_hello, ex_request 0x01 ''no-ip'']) =
     (None, ex_parsed 0x01 ''no-ip'', ex_trace [EvWrite [0x05, 0x00] True]) \<and>
   AddressType (Request (SocksHandle (ex_parsed 0x01 ''no-ip''))) = ATYPDomain \<and>
   DstAddr (Request (SocksHandle (ex_parsed 0x01 ''no-ip''))) \<noteq> Socks5Proxy.NodeName ex_proxy \<and>
   Command (Request (SocksHandle (ex_parsed 0x01 ''no-ip''))) = CmdConnect \<and>
   kubeClient ex_proxy ''kubeedge'' (pod_query ''no-ip'') =
     Inr [\<lparr>Name = ''edgemesh-agent-new'', PodIP = []\<rparr>] \<and>
   filter is_agent_pod [\<lparr>Name = ''edgemesh-agent-new'', PodIP = []\<rparr>] =
     [\<lparr>Name = ''edgemesh-agent-new'', PodIP = []\<rparr>] \<and>
   fst (getTargetIpByNodeName ''kubeedge'' (ex_parsed 0x01 ''no-ip'') ''no-ip''
          (ex_trace [EvWrite [0x05, 0x00] True])) = ([], None) \<and>
   HandleSocksProxy ex_ip16 ex_tunnel ''kubeedge'' ex_proxy
       (Some (ex_conn [ex_hello, ex_request 0x01 ''no-ip''])) =
     (ex_parsed 0x01 ''no-ip'',
      Some (ex_trace
        [EvWrite [0x05, 0x00] True,
         EvList ''kubeedge'' (pod_query ''no-ip''),
         EvGetProxyStream \<lparr>Protocol = ''tcp'', NodeName = ''no-ip'', IP = [], Port = 8080\<rparr>,
         EvWrite [0x05, 0x00, 0x00, 0x01, 0, 0, 0, 0, 0, 0] True,
         EvGoProxyConn 7,
         EvClose])) \<and>
   stream_requests
     [EvWrite [0x05, 0x00] True,
      EvList ''kubeedge'' (pod_query ''no-ip''),
      EvGetProxyStream \<lparr>Protocol = ''tcp'', NodeName = ''no-ip'', IP = [], Port = 8080\<rparr>,
      EvWrite [0x05, 0x00, 0x00, 0x01, 0, 0, 0, 0, 0, 0] True,
      EvGoProxyConn 7,
      EvClose] =
     [\<lparr>Protocol = ''tcp'', NodeName = ''no-ip'', IP = [], Port = 8080\<rparr>]"
proof -
  have p: "HandleSocksProxy_parse ex_ip16 ex_proxy (ex_conn [ex_hello, ex_request 0x01 ''no-ip'']) =
     (None, ex_parsed 0x01 ''no-ip'', ex_trace [EvWrite [0x05, 0x00] True])"
    by (rule ex_parse) simp
  have d: "AddressType (Request (SocksHandle (ex_parsed 0x01 ''no-ip''))) = ATYPDomain"
    and n: "DstAddr (Request (SocksHandle (ex_parsed 0x01 ''no-ip''))) \<noteq> Socks5Proxy.NodeName ex_proxy"
    and k: "Command (Request (SocksHandle (ex_parsed 0x01 ''no-ip''))) = CmdConnect"
    by (simp_all add: ex_unfold)
  have a: "DstAddr (Request (SocksHandle (ex_parsed 0x01 ''no-ip''))) = ''no-ip''"
    and q: "DstPort (Request (SocksHandle (ex_parsed 0x01 ''no-ip''))) = 8080"
    by (simp_all add: ex_unfold)
  have l: "kubeClient ex_proxy ''kubeedge''
             (pod_query (DstAddr (Request (SocksHandle (ex_parsed 0x01 ''no-ip''))))) =
           Inr [\<lparr>Name = ''edgemesh-agent-new'', PodIP = []\<rparr>]"
    by (simp add: a) (simp add: ex_unfold ex_kube_def)
  have f: "filter is_agent_pod [\<lparr>Name = ''edgemesh-agent-new'', PodIP = []\<rparr>] =
     [\<lparr>Name = ''edgemesh-agent-new'', PodIP = []\<rparr>]"
    by (simp add: is_agent_pod_code AgentPodName_def)
  have f1: "filter is_agent_pod [\<lparr>Name = ''edgemesh-agent-new'', PodIP = []\<rparr>] \<noteq> []"
    and f2: "PodIP (last (filter is_agent_pod [\<lparr>Name = ''edgemesh-agent-new'', PodIP = []\<rparr>])) = []"
    unfolding f by simp_all
  from getTargetIpByNodeName_empty_ip [OF p ex_run_no_ip [of ex_ip16] d n k l f1 f2] l
  show ?thesis
    by (simp add: p d n [unfolded a] k a q is_agent_pod_code AgentPodName_def ex_run_no_ip)
qed

subsection \<open>Where the code departs from the specification\<close>

lemma ex_short_name:
  "string_of_bytes (0x6d # 0x79 # replicate 6 0) =
     [CHR ''m'', CHR ''y'', CHR 0x00, CHR 0x00, CHR 0x00, CHR 0x00, CHR 0x00, CHR 0x00]"
  by code_simp

text \<open>
  C2. The codec does not read a field to its declared length: each field is one
  \<^verbatim>\<open>conn.Read\<close> whose count is dropped. The handshake \<open>05 01 00\<close> succeeds when it
  arrives in one segment, and fails with the method-length error when the first segment
  holds only its first byte, leaving the rest unread. A request whose domain name is split
  over two segments is accepted with the name cut short and padded with zero bytes, and
  with two bytes of the name taken as the port.
\<close>

theorem short_read_breaks_codec:
  "handShake (ex_conn [[0x05, 0x01, 0x00]]) = (None, ex_trace [EvWrite [0x05, 0x00] True]) \<and>
   handShake (ex_conn [[0x05], [0x01, 0x00]]) =
     (Some (Errorf ''method length error''), ex_conn [[0x01, 0x00]]) \<and>
   NewRequest ex_ip16 (SocksHandle ex_proxy)
       (ex_conn [[0x05, 0x01, 0x00, 0x03, 0x08, 0x6d, 0x79],
                 [0x2d, 0x6e, 0x6f, 0x64, 0x65, 0x31, 0x1f, 0x90]]) =
     (None,
      \<lparr>Request = \<lparr>ReqVersion = 0x05, Command = 0x01, Rsv = 0x00, AddressType = 0x03,
                   DstAddr = [CHR ''m'', CHR ''y'', CHR 0x00, CHR 0x00, CHR 0x00, CHR 0x00,
                              CHR 0x00, CHR 0x00],
                   DstPort = 0x2d6e\<rparr>\<rparr>,
      ex_conn [[0x6f, 0x64, 0x65, 0x31, 0x1f, 0x90]])"
  by (simp add: handShake_def NewRequest_def NewRequest_port_def conn_Read_def conn_Write_def
      emit_def method_flag_def BigEndian_Uint16_def ex_short_name ex_defs socks_consts)

lemma ex_parse_any:
  assumes "length name < 256"
  shows "HandleSocksProxy_parse ip16 s (ex_conn [ex_hello, ex_request cmd name]) =
           (None,
            s\<lparr>SocksHandle :=
               \<lparr>Request = \<lparr>ReqVersion = 0x05, Command = cmd, Rsv = 0x00, AddressType = 0x03,
                            DstAddr = name, DstPort = 8080\<rparr>\<rparr>\<rparr>,
            ex_trace [EvWrite [0x05, 0x00] True])"
proof -
  let ?c1 = "\<lparr>inbound = [ex_request cmd name], wfails = [], trace = [EvWrite [0x05, 0x00] True]\<rparr>"
  have len: "length (bytes_of_string name) = unat (word_of_nat (length name) :: byte)"
    using assms by (simp add: bytes_of_string_def unat_of_nat)
  have "inbound ?c1 =
          (0x05 # cmd # 0x00 # 0x03 # word_of_nat (length name) # bytes_of_string name @
             0x1f # 0x90 # []) # []"
    by (simp add: ex_request_def)
  from NewRequest_Domain [OF this len, of ip16 "SocksHandle s"]
  have "NewRequest ip16 (SocksHandle s) ?c1 =
          (None,
           \<lparr>Request = \<lparr>ReqVersion = 0x05, Command = cmd, Rsv = 0x00, AddressType = 0x03,
                        DstAddr = name, DstPort = 8080\<rparr>\<rparr>,
           ex_trace [EvWrite [0x05, 0x00] True])"
    by (cases "SocksHandle s") (simp add: string_of_bytes_of_string ex_port ex_trace_def)
  then show ?thesis
    by (simp add: HandleSocksProxy_parse_def ParsingConnect_def ex_handShake)
qed

text \<open>
  C1. The parsed request is not owned by the connection: it is stored in the one handle of
  the proxy. Handling a connection changes the request held by the proxy; and when the
  parsing of a second connection (for \<open>my-node1\<close>) runs between the parsing and the
  dispatch of a first one (for \<open>far\<close>), the first connection is dispatched to the
  destination of the second.
\<close>

theorem request_shared_across_connections:
  "Request (SocksHandle ex_proxy) =
     \<lparr>ReqVersion = 0, Command = 0, Rsv = 0, AddressType = 0, DstAddr = [], DstPort = 0\<rparr> \<and>
   Request (SocksHandle (fst (HandleSocksProxy ex_ip16 ex_tunnel ''kubeedge'' ex_proxy
      (Some (ex_conn [ex_hello, ex_request 0x01 ''my-node1'']))))) =
     \<lparr>ReqVersion = 0x05, Command = 0x01, Rsv = 0x00, AddressType = 0x03,
      DstAddr = ''my-node1'', DstPort = 8080\<rparr> \<and>
   (case HandleSocksProxy_parse ex_ip16 ex_proxy (ex_conn [ex_hello, ex_request 0x01 ''far'']) of
      (errA, sA, connA) \<Rightarrow>
        (case HandleSocksProxy_parse ex_ip16 sA (ex_conn [ex_hello, ex_request 0x01 ''my-node1'']) of
           (errB, sB, connB) \<Rightarrow>
             (errA, errB, DstAddr (Request (SocksHandle sA)),
              trace (conn_Close (HandleSocksProxy_dispatch ex_tunnel ''kubeedge'' sB connA))))) =
     (None, None, ''far'',
      [EvWrite [0x05, 0x00] True,
       EvList ''kubeedge'' (pod_query ''my-node1''),
       EvGetProxyStream \<lparr>Protocol = ''tcp'', NodeName = ''my-node1'', IP = ''10.0.0.5'', Port = 8080\<rparr>,
       EvWrite [0x05, 0x00, 0x00, 0x01, 0, 0, 0, 0, 0, 0] True,
       EvGoProxyConn 7,
       EvClose])"
proof -
  have pA: "HandleSocksProxy_parse ex_ip16 ex_proxy (ex_conn [ex_hello, ex_request 0x01 ''far'']) =
     (None, ex_parsed 0x01 ''far'', ex_trace [EvWrite [0x05, 0x00] True])"
    by (rule ex_parse) simp
  have "HandleSocksProxy_parse ex_ip16 (ex_parsed 0x01 ''far'')
          (ex_conn [ex_hello, ex_request 0x01 ''my-node1'']) =
     (None,
      (ex_parsed 0x01 ''far'')\<lparr>SocksHandle :=
         \<lparr>Request = \<lparr>ReqVersion = 0x05, Command = 0x01, Rsv = 0x00, AddressType = 0x03,
                      DstAddr = ''my-node1'', DstPort = 8080\<rparr>\<rparr>\<rparr>,
      ex_trace [EvWrite [0x05, 0x00] True])"
    by (rule ex_parse_any) simp
  then have pB: "HandleSocksProxy_parse ex_ip16 (ex_parsed 0x01 ''far'')
          (ex_conn [ex_hello, ex_request 0x01 ''my-node1'']) =
     (None, ex_parsed 0x01 ''my-node1'', ex_trace [EvWrite [0x05, 0x00] True])"
    by (simp add: ex_parsed_def)
  have d: "trace (conn_Close (HandleSocksProxy_dispatch ex_tunnel ''kubeedge''
             (ex_parsed 0x01 ''my-node1'') (ex_trace [EvWrite [0x05, 0x00] True]))) =
     [EvWrite [0x05, 0x00] True,
       EvList ''kubeedge'' (pod_query ''my-node1''),
       EvGetProxyStream \<lparr>Protocol = ''tcp'', NodeName = ''my-node1'', IP = ''10.0.0.5'', Port = 8080\<rparr>,
       EvWrite [0x05, 0x00, 0x00, 0x01, 0, 0, 0, 0, 0, 0] True,
       EvGoProxyConn 7,
       EvClose]"
    by (simp add: ex_eval)
  have a: "DstAddr (Request (SocksHandle (ex_parsed 0x01 ''far''))) = ''far''"
    by (simp add: ex_parsed_def)
  have z: "Request (SocksHandle ex_proxy) =
     \<lparr>ReqVersion = 0, Command = 0, Rsv = 0, AddressType = 0, DstAddr = [], DstPort = 0\<rparr>"
    by (simp add: ex_proxy_def NewSocks5Proxy_def)
  have r: "Request (SocksHandle (ex_parsed 0x01 ''my-node1'')) =
     \<lparr>ReqVersion = 0x05, Command = 0x01, Rsv = 0x00, AddressType = 0x03,
      DstAddr = ''my-node1'', DstPort = 8080\<rparr>"
    by (simp add: ex_parsed_def)
  show ?thesis
    by (simp add: pA pB d a z r ex_run_my_node1)
qed

text \<open>In particular, handling one connection leaves the proxy with another request than
  it had.\<close>

theorem request_shared_across_connections_witness:
  "Request (SocksHandle (fst (HandleSocksProxy ex_ip16 ex_tunnel ''kubeedge'' ex_proxy
      (Some (ex_conn [ex_hello, ex_request 0x01 ''my-node1'']))))) \<noteq>
   Request (SocksHandle ex_proxy)"
  using request_shared_across_connections by simp

subsection \<open>An empty pod IP that is not the last match\<close>

text \<open>
  C10 as stated fails: it is not enough that the listing contains a matching pod with the
  empty pod IP. On the node \<open>mixed\<close> such a pod is listed before a matching pod with a
  pod IP, and the resolver returns the IP of the later one.
\<close>

theorem empty_ip_not_last_counterexample:
  "kubeClient ex_proxy ''kubeedge'' (pod_query ''mixed'') =
     Inr [\<lparr>Name = ''edgemesh-agent-a'', PodIP = []\<rparr>,
          \<lparr>Name = ''edgemesh-agent-b'', PodIP = ''10.0.0.8''\<rparr>] \<and>
   is_agent_pod \<lparr>Name = ''edgemesh-agent-a'', PodIP = []\<rparr> \<and>
   PodIP \<lparr>Name = ''edgemesh-agent-a'', PodIP = []\<rparr> = [] \<and>
   fst (getTargetIpByNodeName ''kubeedge'' ex_proxy ''mixed'' (ex_conn [])) = (''10.0.0.8'', None) \<and>
   fst (getTargetIpByNodeName ''kubeedge'' ex_proxy ''mixed'' (ex_conn [])) \<noteq> ([], None)"
  by (simp add: getTargetIpByNodeName_def pod_step_def pod_query_def is_agent_pod_code Let_def
      ex_defs socks_consts)

subsection \<open>Messages that arrive in several segments\<close>

text \<open>
  C3. The handshake does not decide by the bytes of the message when the message arrives
  in several segments, since each field is one read into a zeroed buffer. The message
  \<open>05 02 01 02\<close>, whose two methods are not \<open>0x00\<close>, arriving as \<open>05 02 01\<close> and
  \<open>02\<close>, is accepted and answered \<open>05 00\<close>: the second method is never read and the
  zero of the buffer stands for it. The message \<open>05 02 01 00\<close>, which offers the method
  \<open>0x00\<close>, arriving as \<open>05\<close> and \<open>02 01 00\<close>, is refused with the method-length
  error and nothing is written.
\<close>

theorem handShake_split_message:
  "concat [[0x05, 0x02, 0x01], [0x02 :: byte]] = 0x05 # 0x02 # [0x01, 0x02] \<and>
   (0x00 :: byte) \<notin> set [0x01, 0x02] \<and>
   handShake (ex_conn [[0x05, 0x02, 0x01], [0x02]]) =
     (None, \<lparr>inbound = [[0x02]], wfails = [], trace = [EvWrite [0x05, 0x00] True]\<rparr>) \<and>
   concat [[0x05], [0x02, 0x01, 0x00 :: byte]] = 0x05 # 0x02 # [0x01, 0x00] \<and>
   (0x00 :: byte) \<in> set [0x01, 0x00] \<and>
   handShake (ex_conn [[0x05], [0x02, 0x01, 0x00]]) =
     (Some (Errorf ''method length error''), ex_conn [[0x02, 0x01, 0x00]])"
  by (simp add: handShake_def conn_Read_def conn_Write_def emit_def method_flag_def ex_conn_def
      socks_consts)

lemma ex_split_name:
  "string_of_bytes (0x6d # 0x79 # 0x2d # 0x6e # replicate 4 0) =
     [CHR ''m'', CHR ''y'', CHR ''-'', CHR ''n'', CHR 0x00, CHR 0x00, CHR 0x00, CHR 0x00]"
  by code_simp

text \<open>
  C4. The request reader does not decode a well-formed request that arrives in several
  segments. The IPv4 request for \<open>192.168.0.1\<close>, port 8080, arriving as
  \<open>05 01 00 01 c0 a8\<close> and \<open>00 01 1f 90\<close>, is stored with no error as the address
  \<open>192.168.0.0\<close> and the port 1. The domain request for \<open>my-node1\<close>, port 8080, with
  the name split after \<open>my-n\<close>, is stored with no error as the name \<open>my-n\<close> followed
  by four zero bytes and the port \<open>0x6f64\<close>, which are two bytes of the name.
\<close>

theorem NewRequest_split_message:
  "NewRequest ex_ip16 (SocksHandle ex_proxy)
       (ex_conn [[0x05, 0x01, 0x00, 0x01, 192, 168], [0, 1, 0x1f, 0x90]]) =
     (None,
      \<lparr>Request = \<lparr>ReqVersion = 0x05, Command = 0x01, Rsv = 0x00, AddressType = 0x01,
                   DstAddr = ''192.168.0.0'', DstPort = 1\<rparr>\<rparr>,
      ex_conn [[0x1f, 0x90]]) \<and>
   dotted_decimal [192, 168, 0, 1] = ''192.168.0.1'' \<and>
   256 * uint (0x1f :: byte) + uint (0x90 :: byte) = 8080 \<and>
   sint (1 :: 32 word) = 1 \<and>
   NewRequest ex_ip16 (SocksHandle ex_proxy)
       (ex_conn [[0x05, 0x01, 0x00, 0x03, 0x08, 0x6d, 0x79, 0x2d, 0x6e],
                 [0x6f, 0x64, 0x65, 0x31, 0x1f, 0x90]]) =
     (None,
      \<lparr>Request = \<lparr>ReqVersion = 0x05, Command = 0x01, Rsv = 0x00, AddressType = 0x03,
                   DstAddr = [CHR ''m'', CHR ''y'', CHR ''-'', CHR ''n'', CHR 0x00, CHR 0x00,
                              CHR 0x00, CHR 0x00],
                   DstPort = 0x6f64\<rparr>\<rparr>,
      ex_conn [[0x65, 0x31, 0x1f, 0x90]]) \<and>
   bytes_of_string [CHR ''m'', CHR ''y'', CHR ''-'', CHR ''n'', CHR 0x00, CHR 0x00, CHR 0x00, CHR 0x00] =
     [0x6d, 0x79, 0x2d, 0x6e, 0, 0, 0, 0]"
  by (simp add: NewRequest_def NewRequest_port_def conn_Read_def net_IP_String_def ubtoa_def
      digit_def BigEndian_Uint16_def ex_split_name dotted_decimal_def decimal_below_256
      bytes_of_string_def ex_defs socks_consts)

end
